theory Spec2Isabelle
  imports Main
begin

section \<open>The WebGL context manager (\<^verbatim>\<open>src/backends/webgl/webgl_context_manager.ts\<close>)\<close>

text \<open>
  The source file holds two iterations of the module. The second one (with
  \<^verbatim>\<open>callAndCheck\<close>, \<^verbatim>\<open>checkWebGLError\<close> and \<^verbatim>\<open>getWebGLErrorMessage\<close>) is the
  error-checked variant; it is embedded first, under the source's names. The first
  iteration is embedded afterwards with the suffix \<open>_v1\<close>.

  Conventions of the embedding.
  \<^item> A \<^verbatim>\<open>WebGLRenderingContext\<close> object is an opaque \<open>handle\<close>; two handles are the same
    JavaScript object exactly when they are equal. A factory returns such an object, as
    its type says (never \<^verbatim>\<open>null\<close>).
  \<^item> A version is an integer; the property key of \<^verbatim>\<open>contexts[version]\<close> is its decimal
    string, which is injective on integers, so the registry is a map from versions.
  \<^item> Everything outside the module (the driver behind a handle, the injected callbacks,
    the canvas helpers) acts on an abstract world \<open>'w\<close> and is a parameter of the model.
    Callbacks do not call back into the module.
  \<^item> A \<^verbatim>\<open>throw\<close> is the left injection of the result; the state reached at the moment
    of the throw is returned with it, because JavaScript does not roll anything back.
  \<^item> The \<open>trace\<close> field is a ghost log of the calls that leave the module, in order,
    with what each one answered.
\<close>

subsection \<open>Data\<close>

type_synonym handle = nat
type_synonym version = int

datatype exn =
    Error string   \<comment> \<open>\<^verbatim>\<open>throw new Error(msg)\<close>, raised by the module itself\<close>
  | Thrown nat     \<comment> \<open>any value thrown inside an injected callback\<close>

datatype cap =
  DEPTH_TEST | STENCIL_TEST | BLEND | DITHER | POLYGON_OFFSET_FILL | SAMPLE_COVERAGE
  | SCISSOR_TEST | CULL_FACE

datatype face = BACK

datatype event =
    Disable handle cap             \<comment> \<open>\<^verbatim>\<open>gl.disable(gl.CAP)\<close>\<close>
  | Enable handle cap              \<comment> \<open>\<^verbatim>\<open>gl.enable(gl.CAP)\<close>\<close>
  | CullFace handle face           \<comment> \<open>\<^verbatim>\<open>gl.cullFace(gl.BACK)\<close>\<close>
  | GetError handle int            \<comment> \<open>\<^verbatim>\<open>gl.getError()\<close> and its answer\<close>
  | IsContextLost handle bool      \<comment> \<open>\<^verbatim>\<open>gl.isContextLost()\<close> and its answer\<close>
  | CallFactory version "nat + handle"  \<comment> \<open>\<^verbatim>\<open>contextFactory(version)\<close> and its outcome\<close>
  | CallCleanup handle "nat + unit"     \<comment> \<open>\<^verbatim>\<open>contextCleanup(gl)\<close> and its outcome\<close>

text \<open>
  An injected callback acts on the world and either returns or throws; what it throws is
  an opaque value, which the module passes on untouched (as \<open>Thrown\<close>).
\<close>

type_synonym 'w factory = "version \<Rightarrow> 'w \<Rightarrow> (nat + handle) \<times> 'w"
type_synonym 'w cleanup = "handle \<Rightarrow> 'w \<Rightarrow> (nat + unit) \<times> 'w"

text \<open>
  The numeric constants read off the context object (\<^verbatim>\<open>gl.NO_ERROR\<close>, ...). Their
  declaration is not part of the source file, so they are a parameter.
\<close>

record gl_enums =
  NO_ERROR :: int
  INVALID_ENUM :: int
  INVALID_VALUE :: int
  INVALID_OPERATION :: int
  INVALID_FRAMEBUFFER_OPERATION :: int
  OUT_OF_MEMORY :: int
  CONTEXT_LOST_WEBGL :: int

text \<open>
  What the module imports or calls and does not define: the flags of \<^verbatim>\<open>ENV\<close>, the two
  helpers of \<^verbatim>\<open>canvas_util\<close>, and the methods of a context object. A method of a
  context object reports a failure through \<^verbatim>\<open>getError\<close>; it does not throw.
\<close>

record 'w platform =
  IS_BROWSER :: bool
  DEBUG :: bool
  WEBGL_VERSION :: version
  createDOMCanvasWebGLRenderingContext :: "'w factory"
  cleanupDOMCanvasWebGLRenderingContext :: "'w cleanup"
  enums :: gl_enums
  gl_isContextLost :: "handle \<Rightarrow> 'w \<Rightarrow> bool \<times> 'w"
  gl_getError :: "handle \<Rightarrow> 'w \<Rightarrow> int \<times> 'w"
  gl_disable :: "handle \<Rightarrow> cap \<Rightarrow> 'w \<Rightarrow> 'w"
  gl_enable :: "handle \<Rightarrow> cap \<Rightarrow> 'w \<Rightarrow> 'w"
  gl_cullFace :: "handle \<Rightarrow> face \<Rightarrow> 'w \<Rightarrow> 'w"

text \<open>The module's three globals, the world, and the ghost trace.\<close>

record 'w state =
  contexts :: "version \<rightharpoonup> handle"
  contextFactory :: "'w factory option"
  contextCleanup :: "'w cleanup option"
  world :: 'w
  trace :: "event list"

type_synonym ('a, 'w) result = "(exn + 'a) \<times> 'w state"

subsection \<open>Calls that leave the module\<close>

definition disable :: "'w platform \<Rightarrow> handle \<Rightarrow> cap \<Rightarrow> 'w state \<Rightarrow> 'w state" where
  "disable P gl c s = s\<lparr>world := gl_disable P gl c (world s), trace := trace s @ [Disable gl c]\<rparr>"

definition enable :: "'w platform \<Rightarrow> handle \<Rightarrow> cap \<Rightarrow> 'w state \<Rightarrow> 'w state" where
  "enable P gl c s = s\<lparr>world := gl_enable P gl c (world s), trace := trace s @ [Enable gl c]\<rparr>"

definition cullFace :: "'w platform \<Rightarrow> handle \<Rightarrow> face \<Rightarrow> 'w state \<Rightarrow> 'w state" where
  "cullFace P gl f s = s\<lparr>world := gl_cullFace P gl f (world s), trace := trace s @ [CullFace gl f]\<rparr>"

definition getError :: "'w platform \<Rightarrow> handle \<Rightarrow> 'w state \<Rightarrow> int \<times> 'w state" where
  "getError P gl s =
     (case gl_getError P gl (world s) of
        (error, w) \<Rightarrow> (error, s\<lparr>world := w, trace := trace s @ [GetError gl error]\<rparr>))"

definition isContextLost :: "'w platform \<Rightarrow> handle \<Rightarrow> 'w state \<Rightarrow> bool \<times> 'w state" where
  "isContextLost P gl s =
     (case gl_isContextLost P gl (world s) of
        (lost, w) \<Rightarrow> (lost, s\<lparr>world := w, trace := trace s @ [IsContextLost gl lost]\<rparr>))"

definition call_factory :: "'w factory \<Rightarrow> version \<Rightarrow> 'w state \<Rightarrow> (handle, 'w) result" where
  "call_factory f v s =
     (case f v (world s) of
        (r, w) \<Rightarrow> (map_sum Thrown id r, s\<lparr>world := w, trace := trace s @ [CallFactory v r]\<rparr>))"

definition call_cleanup :: "'w cleanup \<Rightarrow> handle \<Rightarrow> 'w state \<Rightarrow> (unit, 'w) result" where
  "call_cleanup c gl s =
     (case c gl (world s) of
        (r, w) \<Rightarrow> (map_sum Thrown id r, s\<lparr>world := w, trace := trace s @ [CallCleanup gl r]\<rparr>))"

subsection \<open>Number to string\<close>

text \<open>
  The template literal \<^verbatim>\<open>`${status}`\<close> on an integer of magnitude below \<open>2^53\<close> is its
  decimal numeral, with a leading minus sign when negative: every such integer is a
  JavaScript number and is printed digit for digit. From \<open>2^53\<close> on JavaScript prints the
  shortest digits that round to the number, padded with zeros (and exponent notation from
  \<open>10^21\<close>); those magnitudes and non-integral numbers are outside this model.
\<close>

definition digit :: "nat \<Rightarrow> char" where
  "digit d = ''0123456789'' ! d"

fun string_of_nat :: "nat \<Rightarrow> string" where
  "string_of_nat n =
     (if n < 10 then [digit n]
      else string_of_nat (n div 10) @ [digit (n mod 10)])"

declare string_of_nat.simps [simp del]

definition string_of_int :: "int \<Rightarrow> string" where
  "string_of_int i = (if i < 0 then CHR ''-'' # string_of_nat (nat (- i)) else string_of_nat (nat i))"

subsection \<open>The error-checking wrapper (lines 137--173)\<close>

definition getWebGLErrorMessage :: "'w platform \<Rightarrow> int \<Rightarrow> string" where
  "getWebGLErrorMessage P status =
     (if status = NO_ERROR (enums P) then ''NO_ERROR''
      else if status = INVALID_ENUM (enums P) then ''INVALID_ENUM''
      else if status = INVALID_VALUE (enums P) then ''INVALID_VALUE''
      else if status = INVALID_OPERATION (enums P) then ''INVALID_OPERATION''
      else if status = INVALID_FRAMEBUFFER_OPERATION (enums P) then ''INVALID_FRAMEBUFFER_OPERATION''
      else if status = OUT_OF_MEMORY (enums P) then ''OUT_OF_MEMORY''
      else if status = CONTEXT_LOST_WEBGL (enums P) then ''CONTEXT_LOST_WEBGL''
      else ''Unknown error code '' @ string_of_int status)"

definition checkWebGLError :: "'w platform \<Rightarrow> handle \<Rightarrow> 'w state \<Rightarrow> (unit, 'w) result" where
  "checkWebGLError P gl s =
     (case getError P gl s of
        (error, s1) \<Rightarrow>
          if error \<noteq> NO_ERROR (enums P)
          then (Inl (Error (''WebGL Error: '' @ getWebGLErrorMessage P error)), s1)
          else (Inr (), s1))"

definition callAndCheck ::
  "'w platform \<Rightarrow> handle \<Rightarrow> bool \<Rightarrow> ('w state \<Rightarrow> ('a, 'w) result) \<Rightarrow> 'w state \<Rightarrow> ('a, 'w) result" where
  "callAndCheck P gl debugMode func s =
     (case func s of
        (Inl e, s1) \<Rightarrow> (Inl e, s1)
      | (Inr returnValue, s1) \<Rightarrow>
          if debugMode
          then (case checkWebGLError P gl s1 of
                  (Inl e, s2) \<Rightarrow> (Inl e, s2)
                | (Inr _, s2) \<Rightarrow> (Inr returnValue, s2))
          else (Inr returnValue, s1))"

subsection \<open>The registry (lines 176--266)\<close>

definition setContextFactory :: "'w factory \<Rightarrow> 'w state \<Rightarrow> 'w state" where
  "setContextFactory factory s = s\<lparr>contextFactory := Some factory\<rparr>"

definition setContextCleanup :: "'w cleanup \<Rightarrow> 'w state \<Rightarrow> 'w state" where
  "setContextCleanup cleanup s = s\<lparr>contextCleanup := Some cleanup\<rparr>"

definition bootstrapWebGLContext :: "'w platform \<Rightarrow> handle \<Rightarrow> 'w state \<Rightarrow> (unit, 'w) result" where
  "bootstrapWebGLContext P gl s =
     (case callAndCheck P gl (DEBUG P) (\<lambda>s. (Inr (), disable P gl DEPTH_TEST s)) s of
        (Inl e, s1) \<Rightarrow> (Inl e, s1)
      | (Inr _, s1) \<Rightarrow>
          (let s2 = disable P gl STENCIL_TEST s1;
               s3 = disable P gl BLEND s2;
               s4 = disable P gl DITHER s3;
               s5 = disable P gl POLYGON_OFFSET_FILL s4;
               s6 = disable P gl SAMPLE_COVERAGE s5;
               s7 = enable P gl SCISSOR_TEST s6;
               s8 = enable P gl CULL_FACE s7;
               s9 = cullFace P gl BACK s8
           in (Inr (), s9)))"

text \<open>
  \<^verbatim>\<open>disposeWebGLContext\<close>: the default cleanup is resolved lazily and stored; the entry
  is deleted after the cleanup has returned.
\<close>

definition disposeWebGLContext :: "'w platform \<Rightarrow> version \<Rightarrow> 'w state \<Rightarrow> (unit, 'w) result" where
  "disposeWebGLContext P version s =
     (case contexts s version of
        None \<Rightarrow> (Inr (), s)
      | Some gl \<Rightarrow>
          (let s1 = (if contextCleanup s = None \<and> IS_BROWSER P
                     then s\<lparr>contextCleanup := Some (cleanupDOMCanvasWebGLRenderingContext P)\<rparr>
                     else s)
           in case contextCleanup s1 of
                None \<Rightarrow> (Inr (), s1\<lparr>contexts := (contexts s1)(version := None)\<rparr>)
              | Some cleanup \<Rightarrow>
                  (case call_cleanup cleanup gl s1 of
                     (Inl e, s2) \<Rightarrow> (Inl e, s2)
                   | (Inr _, s2) \<Rightarrow> (Inr (), s2\<lparr>contexts := (contexts s2)(version := None)\<rparr>))))"

text \<open>
  The null check at the head of \<^verbatim>\<open>getContextByVersion\<close>: the factory the call goes on
  with (the installed one, or the canvas helper in a browser), \<open>None\<close> where the source
  throws. The call stores it in \<^verbatim>\<open>contextFactory\<close>.
\<close>

definition factory_in_use :: "'w platform \<Rightarrow> 'w state \<Rightarrow> 'w factory option" where
  "factory_in_use P s =
     (case contextFactory s of
        None \<Rightarrow> if IS_BROWSER P then Some (createDOMCanvasWebGLRenderingContext P) else None
      | Some f \<Rightarrow> Some f)"

text \<open>
  \<^verbatim>\<open>getContextByVersion\<close>. The source reads \<^verbatim>\<open>contexts[version]\<close> again at each use;
  nothing between the reads writes the registry, so the model names the handle once.
  The function calls itself after disposing a lost handle; a call that never returns has
  the value \<open>None\<close>.
\<close>

partial_function (option) getContextByVersion ::
  "'w platform \<Rightarrow> version \<Rightarrow> 'w state \<Rightarrow> (handle, 'w) result option" where
  "getContextByVersion P version s =
     (case factory_in_use P s of
        None \<Rightarrow> Some (Inl (Error ''Default WebGLRenderingContext factory was not set!''), s)
      | Some factory \<Rightarrow>
        (let s0 = s\<lparr>contextFactory := Some factory\<rparr>
         in case (case contexts s0 version of
                    None \<Rightarrow>
                      (case call_factory factory version s0 of
                         (Inl e, s1) \<Rightarrow> (Inl e, s1)
                       | (Inr gl, s1) \<Rightarrow>
                           (case bootstrapWebGLContext P gl (s1\<lparr>contexts := (contexts s1)(version \<mapsto> gl)\<rparr>) of
                              (Inl e, s2) \<Rightarrow> (Inl e, s2)
                            | (Inr _, s2) \<Rightarrow>
                                (case checkWebGLError P gl s2 of
                                   (Inl e, s3) \<Rightarrow> (Inl e, s3)
                                 | (Inr _, s3) \<Rightarrow> (Inr gl, s3))))
                  | Some gl \<Rightarrow> (Inr gl, s0)) of
              (Inl e, s4) \<Rightarrow> Some (Inl e, s4)
            | (Inr gl, s4) \<Rightarrow>
                (case isContextLost P gl s4 of
                   (lost, s5) \<Rightarrow>
                     if lost
                     then (case checkWebGLError P gl s5 of
                             (Inl e, s6) \<Rightarrow> Some (Inl e, s6)
                           | (Inr _, s6) \<Rightarrow>
                               (case disposeWebGLContext P version s6 of
                                  (Inl e, s7) \<Rightarrow> Some (Inl e, s7)
                                | (Inr _, s7) \<Rightarrow> getContextByVersion P version s7))
                     else (case checkWebGLError P gl s5 of
                             (Inl e, s6) \<Rightarrow> Some (Inl e, s6)
                           | (Inr _, s6) \<Rightarrow> Some (Inr gl, s6)))))"

declare getContextByVersion.simps [code]

definition getActiveContext :: "'w platform \<Rightarrow> 'w state \<Rightarrow> (handle, 'w) result option" where
  "getActiveContext P s = getContextByVersion P (WEBGL_VERSION P) s"

definition disposeActiveContext :: "'w platform \<Rightarrow> 'w state \<Rightarrow> (unit, 'w) result" where
  "disposeActiveContext P s = disposeWebGLContext P (WEBGL_VERSION P) s"

subsection \<open>The first iteration of the module (lines 21--116)\<close>

text \<open>
  It has no error checks, and its \<^verbatim>\<open>setContextFactory\<close> replaces the registry by an
  empty object (after printing each key with \<^verbatim>\<open>console.log\<close>, which the model leaves
  out). \<^verbatim>\<open>setContextCleanup\<close> and \<^verbatim>\<open>disposeWebGLContext\<close> are the same text in both
  iterations.
\<close>

definition setContextFactory_v1 :: "'w factory \<Rightarrow> 'w state \<Rightarrow> 'w state" where
  "setContextFactory_v1 factory s = s\<lparr>contextFactory := Some factory, contexts := Map.empty\<rparr>"

definition bootstrapWebGLContext_v1 :: "'w platform \<Rightarrow> handle \<Rightarrow> 'w state \<Rightarrow> 'w state" where
  "bootstrapWebGLContext_v1 P gl s =
     (let s1 = disable P gl DEPTH_TEST s;
          s2 = disable P gl STENCIL_TEST s1;
          s3 = disable P gl BLEND s2;
          s4 = disable P gl DITHER s3;
          s5 = disable P gl POLYGON_OFFSET_FILL s4;
          s6 = disable P gl SAMPLE_COVERAGE s5;
          s7 = enable P gl SCISSOR_TEST s6;
          s8 = enable P gl CULL_FACE s7;
          s9 = cullFace P gl BACK s8
      in s9)"

partial_function (option) getContextByVersion_v1 ::
  "'w platform \<Rightarrow> version \<Rightarrow> 'w state \<Rightarrow> (handle, 'w) result option" where
  "getContextByVersion_v1 P version s =
     (case factory_in_use P s of
        None \<Rightarrow> Some (Inl (Error ''Default WebGLRenderingContext factory was not set!''), s)
      | Some factory \<Rightarrow>
        (let s0 = s\<lparr>contextFactory := Some factory\<rparr>
         in case (case contexts s0 version of
                    None \<Rightarrow>
                      (case call_factory factory version s0 of
                         (Inl e, s1) \<Rightarrow> (Inl e, s1)
                       | (Inr gl, s1) \<Rightarrow>
                           (Inr gl, bootstrapWebGLContext_v1 P gl (s1\<lparr>contexts := (contexts s1)(version \<mapsto> gl)\<rparr>)))
                  | Some gl \<Rightarrow> (Inr gl, s0)) of
              (Inl e, s2) \<Rightarrow> Some (Inl e, s2)
            | (Inr gl, s2) \<Rightarrow>
                (case isContextLost P gl s2 of
                   (lost, s3) \<Rightarrow>
                     if lost
                     then (case disposeWebGLContext P version s3 of
                             (Inl e, s4) \<Rightarrow> Some (Inl e, s4)
                           | (Inr _, s4) \<Rightarrow> getContextByVersion_v1 P version s4)
                     else Some (Inr gl, s3))))"

declare getContextByVersion_v1.simps [code]

subsection \<open>A scripted driver for concrete runs\<close>

text \<open>
  The standard values of the WebGL error constants, and a test double of the platform:
  the world counts the handles made so far, \<open>counting_factory\<close> hands out the next
  number (\<open>constant_factory\<close> always the same handle), a handle is lost when \<open>lostp\<close> says so and its error code is \<open>errp\<close>.
\<close>

definition webgl_enums :: gl_enums where
  "webgl_enums = \<lparr>NO_ERROR = 0, INVALID_ENUM = 1280, INVALID_VALUE = 1281,
     INVALID_OPERATION = 1282, INVALID_FRAMEBUFFER_OPERATION = 1286, OUT_OF_MEMORY = 1285,
     CONTEXT_LOST_WEBGL = 37442\<rparr>"

definition counting_factory :: "nat factory" where
  "counting_factory v w = (Inr w, Suc w)"

definition constant_factory :: "handle \<Rightarrow> nat factory" where
  "constant_factory h v w = (Inr h, w)"

definition quiet_cleanup :: "nat cleanup" where
  "quiet_cleanup gl w = (Inr (), w)"

definition throwing_cleanup :: "nat cleanup" where
  "throwing_cleanup gl w = (Inl 0, w)"

definition mock :: "bool \<Rightarrow> bool \<Rightarrow> (handle \<Rightarrow> bool) \<Rightarrow> (handle \<Rightarrow> int) \<Rightarrow> nat platform" where
  "mock browser debug lostp errp =
     \<lparr>IS_BROWSER = browser, DEBUG = debug, WEBGL_VERSION = 1,
      createDOMCanvasWebGLRenderingContext = counting_factory,
      cleanupDOMCanvasWebGLRenderingContext = quiet_cleanup,
      enums = webgl_enums,
      gl_isContextLost = (\<lambda>gl w. (lostp gl, w)),
      gl_getError = (\<lambda>gl w. (errp gl, w)),
      gl_disable = (\<lambda>gl c w. w),
      gl_enable = (\<lambda>gl c w. w),
      gl_cullFace = (\<lambda>gl f w. w)\<rparr>"

text \<open>
  A second test double, for a driver whose answers change with time: the world is a clock
  of the queries made so far, \<open>lost_at\<close> and \<open>err_at\<close> give the answer of the query made
  at each tick.
\<close>

definition clocked :: "bool \<Rightarrow> (nat \<Rightarrow> bool) \<Rightarrow> (nat \<Rightarrow> int) \<Rightarrow> nat platform" where
  "clocked debug lost_at err_at =
     \<lparr>IS_BROWSER = False, DEBUG = debug, WEBGL_VERSION = 1,
      createDOMCanvasWebGLRenderingContext = constant_factory 0,
      cleanupDOMCanvasWebGLRenderingContext = quiet_cleanup,
      enums = webgl_enums,
      gl_isContextLost = (\<lambda>gl w. (lost_at w, Suc w)),
      gl_getError = (\<lambda>gl w. (err_at w, Suc w)),
      gl_disable = (\<lambda>gl c w. w),
      gl_enable = (\<lambda>gl c w. w),
      gl_cullFace = (\<lambda>gl f w. w)\<rparr>"

definition init :: "nat state" where
  "init = \<lparr>contexts = Map.empty, contextFactory = None, contextCleanup = None,
            world = 0, trace = []\<rparr>"

subsection \<open>Vocabulary of the statements\<close>

text \<open>
  The cleanup a disposal goes on with (the installed one, or the canvas helper in a
  browser); \<open>None\<close> where \<^verbatim>\<open>disposeWebGLContext\<close> calls no cleanup at all.
\<close>

definition cleanup_in_use :: "'w platform \<Rightarrow> 'w state \<Rightarrow> 'w cleanup option" where
  "cleanup_in_use P s =
     (case contextCleanup s of
        None \<Rightarrow> if IS_BROWSER P then Some (cleanupDOMCanvasWebGLRenderingContext P) else None
      | Some c \<Rightarrow> Some c)"

text \<open>
  The calls a successful bootstrap of \<open>gl\<close> leaves in the trace, \<open>ok\<close> being the answer
  of the one error check made in debug mode.
\<close>

definition bootstrap_calls :: "bool \<Rightarrow> handle \<Rightarrow> int \<Rightarrow> event list" where
  "bootstrap_calls debug gl ok =
     Disable gl DEPTH_TEST # (if debug then [GetError gl ok] else []) @
     [Disable gl STENCIL_TEST, Disable gl BLEND, Disable gl DITHER,
      Disable gl POLYGON_OFFSET_FILL, Disable gl SAMPLE_COVERAGE,
      Enable gl SCISSOR_TEST, Enable gl CULL_FACE, CullFace gl BACK]"

text \<open>
  Two conditions on what the driver and the factory answer at the very states where the
  code asks them.
  \<^item> \<open>constructs P f v s gl s'\<close>: in state \<open>s\<close> the factory \<open>f\<close>, called for version \<open>v\<close>,
    returns the handle \<open>gl\<close>, the bootstrap of \<open>gl\<close> goes through, and the error check
    that follows it answers \<^verbatim>\<open>NO_ERROR\<close>; \<open>s'\<close> is the state reached (lines 222--227).
  \<^item> \<open>healthy_at P gl s s'\<close>: in state \<open>s\<close> the handle \<open>gl\<close> answers the loss test with
    false and the error check that follows with \<^verbatim>\<open>NO_ERROR\<close>; \<open>s'\<close> is the state reached
    (lines 229--236).
\<close>

definition constructs ::
  "'w platform \<Rightarrow> 'w factory \<Rightarrow> version \<Rightarrow> 'w state \<Rightarrow> handle \<Rightarrow> 'w state \<Rightarrow> bool" where
  "constructs P f v s gl s' =
     (case call_factory f v s of
        (Inl e, s1) \<Rightarrow> False
      | (Inr gl', s1) \<Rightarrow>
          gl' = gl \<and>
          (case bootstrapWebGLContext P gl (s1\<lparr>contexts := (contexts s1)(v \<mapsto> gl)\<rparr>) of
             (Inl e, s2) \<Rightarrow> False
           | (Inr u, s2) \<Rightarrow> checkWebGLError P gl s2 = (Inr (), s')))"

definition healthy_at :: "'w platform \<Rightarrow> handle \<Rightarrow> 'w state \<Rightarrow> 'w state \<Rightarrow> bool" where
  "healthy_at P gl s s' =
     (case isContextLost P gl s of
        (lost, s1) \<Rightarrow> \<not> lost \<and> checkWebGLError P gl s1 = (Inr (), s'))"

fun is_factory_call :: "event \<Rightarrow> bool" where
  "is_factory_call (CallFactory v r) = True"
| "is_factory_call e = False"

fun is_cleanup_call :: "event \<Rightarrow> bool" where
  "is_cleanup_call (CallCleanup gl r) = True"
| "is_cleanup_call e = False"

fun is_error_check :: "event \<Rightarrow> bool" where
  "is_error_check (GetError gl c) = True"
| "is_error_check e = False"

text \<open>
  Decimal numerals, to say what \<open>string_of_int\<close> prints: \<open>numeral_of ds n\<close> holds when
  \<open>ds\<close> is the decimal numeral of \<open>n\<close> (digits only, no leading zero, value \<open>n\<close>), and
  \<open>decimal_of ds i\<close> adds the minus sign of a negative integer.
\<close>

definition digit_value :: "char \<Rightarrow> nat" where
  "digit_value c = of_char c - 48"

definition decimal_value :: "string \<Rightarrow> nat" where
  "decimal_value ds = foldl (\<lambda>a c. 10 * a + digit_value c) 0 ds"

definition numeral_of :: "string \<Rightarrow> nat \<Rightarrow> bool" where
  "numeral_of ds n =
     (ds \<noteq> [] \<and> set ds \<subseteq> set ''0123456789'' \<and> (hd ds = CHR ''0'' \<longrightarrow> ds = ''0'')
      \<and> decimal_value ds = n)"

definition decimal_of :: "string \<Rightarrow> int \<Rightarrow> bool" where
  "decimal_of ds i =
     (if i < 0 then ds \<noteq> [] \<and> hd ds = CHR ''-'' \<and> numeral_of (tl ds) (nat (- i))
      else numeral_of ds (nat i))"

section \<open>Properties\<close>

lemmas ext_defs =
  disable_def enable_def cullFace_def getError_def isContextLost_def call_factory_def
  call_cleanup_def

lemmas mock_defs =
  mock_def webgl_enums_def counting_factory_def constant_factory_def
  quiet_cleanup_def throwing_cleanup_def init_def

lemmas clock_defs = clocked_def webgl_enums_def constant_factory_def quiet_cleanup_def init_def

subsection \<open>What each call leaves behind\<close>

lemma checkWebGLError_fail:
  assumes "getError P gl s = (c, s1)" "c \<noteq> NO_ERROR (enums P)"
  shows "checkWebGLError P gl s = (Inl (Error (''WebGL Error: '' @ getWebGLErrorMessage P c)), s1)"
  using assms by (simp add: checkWebGLError_def)

lemma get_cached:
  assumes "factory_in_use P s = Some f" "contexts s v = Some gl"
  shows "getContextByVersion P v s =
     (case isContextLost P gl (s\<lparr>contextFactory := Some f\<rparr>) of
        (lost, s5) \<Rightarrow>
          if lost
          then (case checkWebGLError P gl s5 of
                  (Inl e, s6) \<Rightarrow> Some (Inl e, s6)
                | (Inr u, s6) \<Rightarrow>
                    (case disposeWebGLContext P v s6 of
                       (Inl e, s7) \<Rightarrow> Some (Inl e, s7)
                     | (Inr u, s7) \<Rightarrow> getContextByVersion P v s7))
          else (case checkWebGLError P gl s5 of
                  (Inl e, s6) \<Rightarrow> Some (Inl e, s6)
                | (Inr u, s6) \<Rightarrow> Some (Inr gl, s6)))"
  using assms by (subst getContextByVersion.simps) simp

lemma call_factory_frame:
  "\<exists>r w. f v (world s) = (r, w)
       \<and> call_factory f v s = (map_sum Thrown id r, s\<lparr>world := w, trace := trace s @ [CallFactory v r]\<rparr>)"
  by (cases "f v (world s)") (simp add: call_factory_def)

lemma checkWebGLError_frame:
  "\<exists>r w c. checkWebGLError P gl s = (r, s\<lparr>world := w, trace := trace s @ [GetError gl c]\<rparr>)
       \<and> (r = Inr () \<longleftrightarrow> c = NO_ERROR (enums P))"
  by (cases "gl_getError P gl (world s)") (auto simp: checkWebGLError_def getError_def)

lemma bootstrapWebGLContext_frame:
  "\<exists>r w tr. bootstrapWebGLContext P gl s = (r, s\<lparr>world := w, trace := trace s @ tr\<rparr>)"
proof (cases "DEBUG P")
  case False
  then show ?thesis
    by (auto simp: bootstrapWebGLContext_def callAndCheck_def disable_def enable_def cullFace_def)
next
  case True
  obtain r w c where c: "checkWebGLError P gl (disable P gl DEPTH_TEST s)
      = (r, (disable P gl DEPTH_TEST s)\<lparr>world := w,
            trace := trace (disable P gl DEPTH_TEST s) @ [GetError gl c]\<rparr>)"
    using checkWebGLError_frame [of P gl "disable P gl DEPTH_TEST s"] by blast
  show ?thesis
  proof (cases r)
    case (Inl e)
    with True c show ?thesis
      by (simp add: bootstrapWebGLContext_def callAndCheck_def) (auto simp: disable_def)
  next
    case (Inr u)
    with True c show ?thesis
      by (simp add: bootstrapWebGLContext_def callAndCheck_def)
         (auto simp: disable_def enable_def cullFace_def)
  qed
qed

lemma get_uncached:
  assumes "factory_in_use P s = Some f" "contexts s v = None"
  shows "getContextByVersion P v s =
     (case call_factory f v (s\<lparr>contextFactory := Some f\<rparr>) of
        (Inl e, s1) \<Rightarrow> Some (Inl e, s1)
      | (Inr gl, s1) \<Rightarrow>
          (case bootstrapWebGLContext P gl (s1\<lparr>contexts := (contexts s1)(v \<mapsto> gl)\<rparr>) of
             (Inl e, s2) \<Rightarrow> Some (Inl e, s2)
           | (Inr u, s2) \<Rightarrow>
               (case checkWebGLError P gl s2 of
                  (Inl e, s3) \<Rightarrow> Some (Inl e, s3)
                | (Inr u, s3) \<Rightarrow> getContextByVersion P v s3)))"
proof -
  let ?s0 = "s\<lparr>contextFactory := Some f\<rparr>"
  obtain r w where f: "call_factory f v ?s0
      = (map_sum Thrown id r, ?s0\<lparr>world := w, trace := trace ?s0 @ [CallFactory v r]\<rparr>)"
    using call_factory_frame [of f v ?s0] by blast
  show ?thesis
  proof (cases r)
    case (Inl x)
    with f assms show ?thesis by (subst getContextByVersion.simps) simp
  next
    case (Inr gl)
    let ?s1 = "?s0\<lparr>world := w, trace := trace ?s0 @ [CallFactory v r]\<rparr>"
    let ?s1' = "?s1\<lparr>contexts := (contexts ?s1)(v \<mapsto> gl)\<rparr>"
    obtain rb wb tb where b: "bootstrapWebGLContext P gl ?s1'
        = (rb, ?s1'\<lparr>world := wb, trace := trace ?s1' @ tb\<rparr>)"
      using bootstrapWebGLContext_frame [of P gl ?s1'] by blast
    let ?s2 = "?s1'\<lparr>world := wb, trace := trace ?s1' @ tb\<rparr>"
    obtain rc wc cc where c: "checkWebGLError P gl ?s2
        = (rc, ?s2\<lparr>world := wc, trace := trace ?s2 @ [GetError gl cc]\<rparr>)"
      using checkWebGLError_frame [of P gl ?s2] by blast
    let ?s3 = "?s2\<lparr>world := wc, trace := trace ?s2 @ [GetError gl cc]\<rparr>"
    have l: "getContextByVersion P v s =
       (case rb of Inl e \<Rightarrow> Some (Inl e, ?s2)
        | Inr u \<Rightarrow> (case rc of Inl e \<Rightarrow> Some (Inl e, ?s3)
             | Inr u \<Rightarrow>
        (case isContextLost P gl ?s3 of
        (lost, s5) \<Rightarrow>
          if lost
          then (case checkWebGLError P gl s5 of
                  (Inl e, s6) \<Rightarrow> Some (Inl e, s6)
                | (Inr u, s6) \<Rightarrow>
                    (case disposeWebGLContext P v s6 of
                       (Inl e, s7) \<Rightarrow> Some (Inl e, s7)
                     | (Inr u, s7) \<Rightarrow> getContextByVersion P v s7))
          else (case checkWebGLError P gl s5 of
                  (Inl e, s6) \<Rightarrow> Some (Inl e, s6)
                | (Inr u, s6) \<Rightarrow> Some (Inr gl, s6)))))"
      using assms f Inr b c
      by (subst getContextByVersion.simps) (simp split: sum.splits)
    have fu: "factory_in_use P ?s3 = Some f" by (simp add: factory_in_use_def)
    have cx: "contexts ?s3 v = Some gl" by simp
    have id: "?s3\<lparr>contextFactory := Some f\<rparr> = ?s3" by simp
    have g: "getContextByVersion P v ?s3 =
        (case isContextLost P gl ?s3 of
        (lost, s5) \<Rightarrow>
          if lost
          then (case checkWebGLError P gl s5 of
                  (Inl e, s6) \<Rightarrow> Some (Inl e, s6)
                | (Inr u, s6) \<Rightarrow>
                    (case disposeWebGLContext P v s6 of
                       (Inl e, s7) \<Rightarrow> Some (Inl e, s7)
                     | (Inr u, s7) \<Rightarrow> getContextByVersion P v s7))
          else (case checkWebGLError P gl s5 of
                  (Inl e, s6) \<Rightarrow> Some (Inl e, s6)
                | (Inr u, s6) \<Rightarrow> Some (Inr gl, s6)))"
      using get_cached [OF fu cx] by (simp only: id)
    have m: "(case rb of Inl e \<Rightarrow> Some (Inl e, ?s2)
        | Inr u \<Rightarrow> (case rc of Inl e \<Rightarrow> Some (Inl e, ?s3)
             | Inr u \<Rightarrow> getContextByVersion P v ?s3))
       = (case call_factory f v (s\<lparr>contextFactory := Some f\<rparr>) of
        (Inl e, s1) \<Rightarrow> Some (Inl e, s1)
      | (Inr gl, s1) \<Rightarrow>
          (case bootstrapWebGLContext P gl (s1\<lparr>contexts := (contexts s1)(v \<mapsto> gl)\<rparr>) of
             (Inl e, s2) \<Rightarrow> Some (Inl e, s2)
           | (Inr u, s2) \<Rightarrow>
               (case checkWebGLError P gl s2 of
                  (Inl e, s3) \<Rightarrow> Some (Inl e, s3)
                | (Inr u, s3) \<Rightarrow> getContextByVersion P v s3)))"
      using f Inr b c by (simp split: sum.splits)
    show ?thesis
      unfolding m [symmetric] l by (simp only: g)
  qed
qed

lemma get_cached_healthy:
  assumes "factory_in_use P s = Some f" "contexts s v = Some gl"
    "gl_isContextLost P gl (world s) = (False, w1)"
    "gl_getError P gl w1 = (NO_ERROR (enums P), w2)"
  shows "getContextByVersion P v s
     = Some (Inr gl, s\<lparr>contextFactory := Some f, world := w2,
               trace := trace s @ [IsContextLost gl False, GetError gl (NO_ERROR (enums P))]\<rparr>)"
  using assms(3,4)
  by (simp add: get_cached [OF assms(1,2)] isContextLost_def checkWebGLError_def getError_def)

lemma get_lost_retry:
  assumes "factory_in_use P s = Some f" "contexts s v = Some gl"
    "isContextLost P gl (s\<lparr>contextFactory := Some f\<rparr>) = (True, s1)"
    "checkWebGLError P gl s1 = (Inr (), s2)"
    "disposeWebGLContext P v s2 = (Inr (), s3)"
  shows "getContextByVersion P v s = getContextByVersion P v s3"
  using assms(3-5) by (simp add: get_cached [OF assms(1,2)])


lemma checkWebGLError_Inr:
  assumes "checkWebGLError P gl s = (Inr u, s')"
  shows "trace s' = trace s @ [GetError gl (NO_ERROR (enums P))]"
  using assms
  by (cases "gl_getError P gl (world s)")
     (auto simp: checkWebGLError_def getError_def split: if_splits)


lemma disposeWebGLContext_no_cleanup:
  assumes "contexts s v = Some gl" "cleanup_in_use P s = None"
  shows "disposeWebGLContext P v s = (Inr (), s\<lparr>contexts := (contexts s)(v := None)\<rparr>)"
  using assms
  by (auto simp: disposeWebGLContext_def cleanup_in_use_def split: option.splits if_splits)


lemma get_returns_checked:
  fixes P :: "'w platform"
  assumes "getContextByVersion P v s = Some (Inr gl, s')"
  shows "\<exists>tr. trace s' = tr @ [GetError gl (NO_ERROR (enums P))]"
proof -
  define Q :: "('w platform \<times> version) \<times> 'w state \<Rightarrow> (handle, 'w) result \<Rightarrow> bool"
    where "Q = (\<lambda>x y. \<forall>gl s'. y = (Inr gl, s') \<longrightarrow>
           (\<exists>tr. trace s' = tr @ [GetError gl (NO_ERROR (enums (fst (fst x))))]))"
  have "Q ((P, v), s) (Inr gl, s')"
  proof (rule getContextByVersion.raw_induct [where Pa = Q, OF _ assms], goal_cases)
    case (1 rec P v s y)
    show ?case
      unfolding Q_def
    proof (intro allI impI)
      fix gl s' assume y: "y = (Inr gl, s')"
      show "\<exists>tr. trace s' = tr @ [GetError gl (NO_ERROR (enums (fst (fst ((P, v), s)))))]"
        using 1(2) 1(1) unfolding y Q_def
        by (auto split: option.splits prod.splits sum.splits if_splits simp: Let_def
              dest!: checkWebGLError_Inr)
    qed
  qed
  then show ?thesis by (simp add: Q_def)
qed

lemma filter_bootstrap_calls:
  "filter is_factory_call (bootstrap_calls d gl ok) = []"
  "filter is_cleanup_call (bootstrap_calls d gl ok) = []"
  by (simp_all add: bootstrap_calls_def)


subsection \<open>Decimal numerals\<close>

lemma digit_props:
  assumes "d < 10"
  shows "digit d \<in> set ''0123456789''" "digit_value (digit d) = d" "digit d = CHR ''0'' \<longleftrightarrow> d = 0"
proof -
  from assms have "d = 0 \<or> d = 1 \<or> d = 2 \<or> d = 3 \<or> d = 4 \<or> d = 5 \<or> d = 6 \<or> d = 7 \<or> d = 8 \<or> d = 9"
    by arith
  then show "digit d \<in> set ''0123456789''" "digit_value (digit d) = d" "digit d = CHR ''0'' \<longleftrightarrow> d = 0"
    by (auto simp: digit_def digit_value_def)
qed

lemma decimal_value_snoc:
  "decimal_value (ds @ [c]) = 10 * decimal_value ds + digit_value c"
  by (simp add: decimal_value_def)

lemma string_of_nat_numeral: "numeral_of (string_of_nat n) n \<and> (n \<noteq> 0 \<longrightarrow> hd (string_of_nat n) \<noteq> CHR ''0'')"
proof (induction n rule: string_of_nat.induct)
  case (1 n)
  show ?case
  proof (cases "n < 10")
    case True
    then have s: "string_of_nat n = [digit n]" by (subst string_of_nat.simps) simp
    from digit_props [OF True] show ?thesis
      by (auto simp: s numeral_of_def decimal_value_def)
  next
    case False
    then have s: "string_of_nat n = string_of_nat (n div 10) @ [digit (n mod 10)]"
      by (subst string_of_nat.simps) simp
    have m: "n mod 10 < 10" by simp
    from False have nz: "n div 10 \<noteq> 0" by simp
    from 1 [OF False] nz have ih: "numeral_of (string_of_nat (n div 10)) (n div 10)"
      and hd: "hd (string_of_nat (n div 10)) \<noteq> CHR ''0''" by simp_all
    from ih have ne: "string_of_nat (n div 10) \<noteq> []" by (simp add: numeral_of_def)
    from ih digit_props [OF m] hd ne show ?thesis
      by (auto simp: s numeral_of_def decimal_value_snoc)
  qed
qed

lemma string_of_int_decimal: "decimal_of (string_of_int i) i"
  using string_of_nat_numeral [of "nat i"] string_of_nat_numeral [of "nat (- i)"]
  by (simp add: decimal_of_def string_of_int_def)

subsection \<open>Frames\<close>

lemma bootstrapWebGLContext_Inr:
  assumes "bootstrapWebGLContext P gl s = (Inr u, s')"
  shows "contexts s' = contexts s \<and> contextFactory s' = contextFactory s
       \<and> contextCleanup s' = contextCleanup s
       \<and> trace s' = trace s @ bootstrap_calls (DEBUG P) gl (NO_ERROR (enums P))"
  using assms
  by (cases "gl_getError P gl (gl_disable P gl DEPTH_TEST (world s))")
     (auto simp: bootstrapWebGLContext_def callAndCheck_def checkWebGLError_def bootstrap_calls_def
        ext_defs split: if_splits)

lemma checkWebGLError_Inr_frame:
  assumes "checkWebGLError P gl s = (Inr u, s')"
  shows "contexts s' = contexts s \<and> contextFactory s' = contextFactory s
       \<and> contextCleanup s' = contextCleanup s
       \<and> trace s' = trace s @ [GetError gl (NO_ERROR (enums P))]"
  using assms
  by (cases "gl_getError P gl (world s)")
     (auto simp: checkWebGLError_def getError_def split: if_splits)

lemma constructs_frame:
  assumes "constructs P f v s gl s'"
  shows "contexts s' = (contexts s)(v \<mapsto> gl) \<and> contextFactory s' = contextFactory s
       \<and> contextCleanup s' = contextCleanup s
       \<and> trace s' = trace s @ CallFactory v (Inr gl)
            # bootstrap_calls (DEBUG P) gl (NO_ERROR (enums P)) @ [GetError gl (NO_ERROR (enums P))]"
proof -
  obtain r w where f: "f v (world s) = (r, w)" by (cases "f v (world s)")
  let ?s1 = "s\<lparr>world := w, trace := trace s @ [CallFactory v r]\<rparr>"
  from assms f have r: "r = Inr gl"
    by (cases r) (auto simp: constructs_def call_factory_def)
  obtain rb s2 where b: "bootstrapWebGLContext P gl (?s1\<lparr>contexts := (contexts ?s1)(v \<mapsto> gl)\<rparr>) = (rb, s2)"
    by (cases "bootstrapWebGLContext P gl (?s1\<lparr>contexts := (contexts ?s1)(v \<mapsto> gl)\<rparr>)")
  from assms f r b have rb: "rb = Inr ()" and c: "checkWebGLError P gl s2 = (Inr (), s')"
    by (cases rb; simp add: constructs_def call_factory_def)+
  from bootstrapWebGLContext_Inr [OF b [unfolded rb]] checkWebGLError_Inr_frame [OF c] r
  show ?thesis by simp
qed

lemma healthy_at_frame:
  assumes "healthy_at P gl s s'"
  shows "contexts s' = contexts s \<and> contextFactory s' = contextFactory s
       \<and> contextCleanup s' = contextCleanup s
       \<and> trace s' = trace s @ [IsContextLost gl False, GetError gl (NO_ERROR (enums P))]"
proof -
  obtain l w where l: "gl_isContextLost P gl (world s) = (l, w)"
    by (cases "gl_isContextLost P gl (world s)")
  from assms l have nl: "\<not> l"
    and c: "checkWebGLError P gl (s\<lparr>world := w, trace := trace s @ [IsContextLost gl l]\<rparr>) = (Inr (), s')"
    by (auto simp: healthy_at_def isContextLost_def)
  from checkWebGLError_Inr_frame [OF c] nl show ?thesis by simp
qed

subsection \<open>Calls that return a handle\<close>

lemma get_cached_ok:
  assumes "factory_in_use P s = Some f" "contexts s v = Some gl"
    "healthy_at P gl (s\<lparr>contextFactory := Some f\<rparr>) s'"
  shows "getContextByVersion P v s = Some (Inr gl, s')"
  using assms(3)
  by (cases "isContextLost P gl (s\<lparr>contextFactory := Some f\<rparr>)")
     (simp add: get_cached [OF assms(1,2)] healthy_at_def)

lemma get_new_ok:
  assumes "factory_in_use P s = Some f" "contexts s v = None"
    "constructs P f v (s\<lparr>contextFactory := Some f\<rparr>) gl s1" "healthy_at P gl s1 s'"
  shows "getContextByVersion P v s = Some (Inr gl, s')"
proof -
  from constructs_frame [OF assms(3)]
  have cx: "contexts s1 v = Some gl" and cf: "contextFactory s1 = Some f" by simp_all
  have fu: "factory_in_use P s1 = Some f" using cf by (simp add: factory_in_use_def)
  have id: "s1\<lparr>contextFactory := Some f\<rparr> = s1" using cf by simp
  have "getContextByVersion P v s = getContextByVersion P v s1"
    using assms(3)
    by (auto simp: get_uncached [OF assms(1,2)] constructs_def split: prod.splits sum.splits)
  also have "\<dots> = Some (Inr gl, s')"
    using get_cached_ok [OF fu cx] assms(4) by (simp add: id)
  finally show ?thesis .
qed

lemma get_new_step:
  assumes "factory_in_use P s = Some f" "contexts s v = None"
    "constructs P f v (s\<lparr>contextFactory := Some f\<rparr>) gl s1"
  shows "getContextByVersion P v s = getContextByVersion P v s1
       \<and> factory_in_use P s1 = Some f \<and> contexts s1 v = Some gl
       \<and> s1\<lparr>contextFactory := Some f\<rparr> = s1"
proof -
  from constructs_frame [OF assms(3)]
  have cx: "contexts s1 v = Some gl" and cf: "contextFactory s1 = Some f" by simp_all
  have "getContextByVersion P v s = getContextByVersion P v s1"
    using assms(3)
    by (auto simp: get_uncached [OF assms(1,2)] constructs_def split: prod.splits sum.splits)
  with cx cf show ?thesis by (simp add: factory_in_use_def)
qed

subsection \<open>Two runs for comparison\<close>

text \<open>
  The first iteration of the module, which has no error checks, recovers from a lost
  handle whose error state is \<^verbatim>\<open>CONTEXT_LOST_WEBGL\<close>: one cleanup call, one factory call, the
  new handle returned and cached.
\<close>

lemma first_iteration_recovers_from_context_lost:
  "map_option (\<lambda>(r, s'). (r, contexts s' 1, filter is_factory_call (trace s'),
                           filter is_cleanup_call (trace s')))
     (getContextByVersion_v1 (mock False False (\<lambda>gl. gl = 0) (\<lambda>gl. if gl = 0 then 37442 else 0)) 1
        (init\<lparr>contexts := [1 \<mapsto> 0], contextFactory := Some counting_factory,
              contextCleanup := Some quiet_cleanup, world := 1\<rparr>))
   = Some (Inr 1, Some 1, [CallFactory 1 (Inr 1)], [CallCleanup 0 (Inr ())])"
  by (simp add: getContextByVersion_v1.simps factory_in_use_def bootstrapWebGLContext_v1_def
        disposeWebGLContext_def ext_defs mock_defs)

text \<open>
  In the error-checked iteration each lost handle costs one more construction: with the
  handles \<open>0, \<dots>, n - 1\<close> lost, a call for an uncached version on a fresh counting factory
  calls the factory \<open>n + 1\<close> times before it returns handle \<open>n\<close>.
\<close>

lemma lost_handles_each_cost_a_rebuild:
  assumes "contextFactory s = Some counting_factory" "contextCleanup s = None"
    "contexts s 1 = None" "world s \<le> n"
  shows "\<exists>s' tr. getContextByVersion (mock False False (\<lambda>gl. gl < n) (\<lambda>gl. 0)) 1 s = Some (Inr n, s')
     \<and> trace s' = trace s @ tr
     \<and> length (filter is_factory_call tr) = Suc (n - world s)"
  using assms
proof (induction "n - world s" arbitrary: s)
  case 0
  let ?P = "mock False False (\<lambda>gl. gl < n) (\<lambda>gl. 0)"
  from 0 have w: "world s = n" by simp
  have fu: "factory_in_use ?P s = Some counting_factory"
    using 0(2) by (simp add: factory_in_use_def)
  let ?s0 = "s\<lparr>contextFactory := Some counting_factory\<rparr>"
  let ?s1 = "?s0\<lparr>contexts := (contexts s)(1 \<mapsto> n), world := Suc n,
      trace := trace s @ CallFactory 1 (Inr n) # bootstrap_calls False n 0 @ [GetError n 0]\<rparr>"
  let ?s' = "?s1\<lparr>trace := trace ?s1 @ [IsContextLost n False, GetError n 0]\<rparr>"
  have k: "constructs ?P counting_factory 1 ?s0 n ?s1"
    using w
    by (simp add: constructs_def bootstrapWebGLContext_def callAndCheck_def checkWebGLError_def
          bootstrap_calls_def ext_defs mock_defs)
  have l: "healthy_at ?P n ?s1 ?s'"
    by (simp add: healthy_at_def checkWebGLError_def ext_defs mock_defs)
  have "getContextByVersion ?P 1 s = Some (Inr n, ?s')"
    by (rule get_new_ok [OF fu 0(4) k l])
  moreover have "trace ?s' = trace s @ (CallFactory 1 (Inr n) # bootstrap_calls False n 0
      @ [GetError n 0, IsContextLost n False, GetError n 0])" by simp
  moreover have "length (filter is_factory_call (CallFactory 1 (Inr n) # bootstrap_calls False n 0
      @ [GetError n 0, IsContextLost n False, GetError n 0])) = Suc (n - world s)"
    by (simp add: w filter_bootstrap_calls)
  ultimately show ?case by blast
next
  case (Suc d)
  let ?P = "mock False False (\<lambda>gl. gl < n) (\<lambda>gl. 0)"
  let ?k = "world s"
  from Suc(2) have lt: "?k < n" by simp
  have fu: "factory_in_use ?P s = Some counting_factory"
    using Suc(3) by (simp add: factory_in_use_def)
  let ?s0 = "s\<lparr>contextFactory := Some counting_factory\<rparr>"
  let ?s1 = "?s0\<lparr>contexts := (contexts s)(1 \<mapsto> ?k), world := Suc ?k,
      trace := trace s @ CallFactory 1 (Inr ?k) # bootstrap_calls False ?k 0 @ [GetError ?k 0]\<rparr>"
  let ?s2 = "?s1\<lparr>trace := trace ?s1 @ [IsContextLost ?k True]\<rparr>"
  let ?s3 = "?s1\<lparr>trace := trace ?s1 @ [IsContextLost ?k True, GetError ?k 0]\<rparr>"
  let ?s4 = "?s3\<lparr>contexts := (contexts ?s3)(1 := None)\<rparr>"
  have k: "constructs ?P counting_factory 1 ?s0 ?k ?s1"
    by (simp add: constructs_def bootstrapWebGLContext_def callAndCheck_def checkWebGLError_def
          bootstrap_calls_def ext_defs mock_defs)
  from get_new_step [OF fu Suc(5) k]
  have g1: "getContextByVersion ?P 1 s = getContextByVersion ?P 1 ?s1"
    and fu1: "factory_in_use ?P ?s1 = Some counting_factory"
    and cx1: "contexts ?s1 1 = Some ?k"
    and id1: "?s1\<lparr>contextFactory := Some counting_factory\<rparr> = ?s1" by simp_all
  have il: "isContextLost ?P ?k (?s1\<lparr>contextFactory := Some counting_factory\<rparr>) = (True, ?s2)"
    using lt by (simp add: isContextLost_def mock_defs)
  have ce: "checkWebGLError ?P ?k ?s2 = (Inr (), ?s3)"
    by (simp add: checkWebGLError_def getError_def mock_defs)
  have di: "disposeWebGLContext ?P 1 ?s3 = (Inr (), ?s4)"
    using Suc(4) by (simp add: disposeWebGLContext_def mock_defs)
  have g2: "getContextByVersion ?P 1 ?s1 = getContextByVersion ?P 1 ?s4"
    by (rule get_lost_retry [OF fu1 cx1 il ce di])
  have d: "d = n - world ?s4" using Suc(2) by simp
  have a1: "contextFactory ?s4 = Some counting_factory" by simp
  have a2: "contextCleanup ?s4 = None" using Suc(4) by simp
  have a3: "contexts ?s4 1 = None" by simp
  have a4: "world ?s4 \<le> n" using lt by simp
  from Suc(1) [OF d a1 a2 a3 a4] obtain s' tr where
    r: "getContextByVersion ?P 1 ?s4 = Some (Inr n, s')"
    and t: "trace s' = trace ?s4 @ tr"
    and c: "length (filter is_factory_call tr) = Suc (n - world ?s4)"
    by blast
  have "getContextByVersion ?P 1 s = Some (Inr n, s')" by (simp only: g1 g2 r)
  moreover have "trace s' = trace s @ (CallFactory 1 (Inr ?k) # bootstrap_calls False ?k 0
      @ [GetError ?k 0, IsContextLost ?k True, GetError ?k 0] @ tr)"
    by (simp add: t)
  moreover have "length (filter is_factory_call (CallFactory 1 (Inr ?k) # bootstrap_calls False ?k 0
      @ [GetError ?k 0, IsContextLost ?k True, GetError ?k 0] @ tr)) = Suc (n - world s)"
    using c lt by (simp add: filter_bootstrap_calls)
  ultimately show ?case by blast
qed

section \<open>The claims\<close>







text \<open>
  C3, as the source has it. Two distinct uncached versions requested in sequence, each
  with a handle from the factory that passes its checks and is not lost when tested, get
  a registry entry each, holding the handle the factory returned for that version; the
  two entries differ when the two handles do. A call for a cached version whose handle is
  not lost and whose error check answers \<^verbatim>\<open>NO_ERROR\<close> returns the cached handle itself,
  calls no factory and leaves the registry as it was.
\<close>

theorem cached_handle_per_version:
  assumes "factory_in_use P s = Some f"
  shows "(\<forall>v1 v2 h1 h2 t1 s1 t2 s2.
            v1 \<noteq> v2 \<and> contexts s v1 = None \<and> contexts s v2 = None
            \<and> constructs P f v1 (s\<lparr>contextFactory := Some f\<rparr>) h1 t1 \<and> healthy_at P h1 t1 s1
            \<and> constructs P f v2 s1 h2 t2 \<and> healthy_at P h2 t2 s2
          \<longrightarrow> getContextByVersion P v1 s = Some (Inr h1, s1)
              \<and> getContextByVersion P v2 s1 = Some (Inr h2, s2)
              \<and> contexts s2 = (contexts s)(v1 \<mapsto> h1, v2 \<mapsto> h2)
              \<and> (h1 \<noteq> h2 \<longrightarrow> contexts s2 v1 \<noteq> contexts s2 v2))
       \<and> (\<forall>v gl w1 w2.
            contexts s v = Some gl
            \<and> gl_isContextLost P gl (world s) = (False, w1)
            \<and> gl_getError P gl w1 = (NO_ERROR (enums P), w2)
          \<longrightarrow> getContextByVersion P v s
                = Some (Inr gl, s\<lparr>contextFactory := Some f, world := w2,
                     trace := trace s @ [IsContextLost gl False, GetError gl (NO_ERROR (enums P))]\<rparr>))"
proof (intro conjI allI impI)
  fix v1 v2 h1 h2 t1 s1 t2 s2
  assume a: "v1 \<noteq> v2 \<and> contexts s v1 = None \<and> contexts s v2 = None
            \<and> constructs P f v1 (s\<lparr>contextFactory := Some f\<rparr>) h1 t1 \<and> healthy_at P h1 t1 s1
            \<and> constructs P f v2 s1 h2 t2 \<and> healthy_at P h2 t2 s2"
  then have ne: "v1 \<noteq> v2" and u1: "contexts s v1 = None" and u2: "contexts s v2 = None"
    and k1: "constructs P f v1 (s\<lparr>contextFactory := Some f\<rparr>) h1 t1"
    and l1: "healthy_at P h1 t1 s1"
    and k2: "constructs P f v2 s1 h2 t2" and l2: "healthy_at P h2 t2 s2" by blast+
  have g1: "getContextByVersion P v1 s = Some (Inr h1, s1)"
    by (rule get_new_ok [OF assms u1 k1 l1])
  from constructs_frame [OF k1] healthy_at_frame [OF l1]
  have c1: "contexts s1 = (contexts s)(v1 \<mapsto> h1)" and f1: "contextFactory s1 = Some f"
    by simp_all
  have fu: "factory_in_use P s1 = Some f" using f1 by (simp add: factory_in_use_def)
  have id: "s1\<lparr>contextFactory := Some f\<rparr> = s1" using f1 by simp
  have un: "contexts s1 v2 = None" using c1 u2 ne by simp
  from k2 have k2': "constructs P f v2 (s1\<lparr>contextFactory := Some f\<rparr>) h2 t2" unfolding id .
  have g2: "getContextByVersion P v2 s1 = Some (Inr h2, s2)"
    by (rule get_new_ok [OF fu un k2' l2])
  from constructs_frame [OF k2] healthy_at_frame [OF l2] c1
  have c2: "contexts s2 = (contexts s)(v1 \<mapsto> h1, v2 \<mapsto> h2)" by simp
  show "getContextByVersion P v1 s = Some (Inr h1, s1)" by (rule g1)
  show "getContextByVersion P v2 s1 = Some (Inr h2, s2)" by (rule g2)
  show "contexts s2 = (contexts s)(v1 \<mapsto> h1, v2 \<mapsto> h2)" by (rule c2)
  show "contexts s2 v1 \<noteq> contexts s2 v2" if "h1 \<noteq> h2"
    using that ne by (simp add: c2)
next
  fix v gl w1 w2
  assume "contexts s v = Some gl
            \<and> gl_isContextLost P gl (world s) = (False, w1)
            \<and> gl_getError P gl w1 = (NO_ERROR (enums P), w2)"
  then show "getContextByVersion P v s
                = Some (Inr gl, s\<lparr>contextFactory := Some f, world := w2,
                     trace := trace s @ [IsContextLost gl False, GetError gl (NO_ERROR (enums P))]\<rparr>)"
    using get_cached_healthy [OF assms, of v gl w1 w2] by simp
qed

theorem cached_handle_per_version_witness:
  "(\<exists>s1 s2. getContextByVersion (mock False False (\<lambda>gl. False) (\<lambda>gl. 0)) 1
                  (init\<lparr>contextFactory := Some counting_factory\<rparr>) = Some (Inr 0, s1)
        \<and> getContextByVersion (mock False False (\<lambda>gl. False) (\<lambda>gl. 0)) 2 s1 = Some (Inr 1, s2)
        \<and> contexts s2 = [1 \<mapsto> 0, 2 \<mapsto> 1] \<and> contexts s2 1 \<noteq> contexts s2 2)
   \<and> getContextByVersion (mock False False (\<lambda>gl. False) (\<lambda>gl. 0)) 1
        (init\<lparr>contexts := [1 \<mapsto> 0, 2 \<mapsto> 1], contextFactory := Some counting_factory, world := 2\<rparr>)
      = Some (Inr 0, init\<lparr>contexts := [1 \<mapsto> 0, 2 \<mapsto> 1], contextFactory := Some counting_factory,
                world := 2, trace := [IsContextLost 0 False, GetError 0 0]\<rparr>)"
proof -
  let ?P = "mock False False (\<lambda>gl. False) (\<lambda>gl. 0)"
  let ?s = "init\<lparr>contextFactory := Some counting_factory\<rparr>"
  let ?t1 = "?s\<lparr>contexts := [1 \<mapsto> 0], world := 1,
      trace := CallFactory 1 (Inr 0) # bootstrap_calls False 0 0 @ [GetError 0 0]\<rparr>"
  let ?s1 = "?t1\<lparr>trace := trace ?t1 @ [IsContextLost 0 False, GetError 0 0]\<rparr>"
  let ?t2 = "?s1\<lparr>contexts := [1 \<mapsto> 0, 2 \<mapsto> 1], world := 2,
      trace := trace ?s1 @ CallFactory 2 (Inr 1) # bootstrap_calls False 1 0 @ [GetError 1 0]\<rparr>"
  let ?s2 = "?t2\<lparr>trace := trace ?t2 @ [IsContextLost 1 False, GetError 1 0]\<rparr>"
  let ?u = "init\<lparr>contexts := [1 \<mapsto> 0, 2 \<mapsto> 1], contextFactory := Some counting_factory, world := 2\<rparr>"
  have h: "factory_in_use ?P ?s = Some counting_factory" by (simp add: factory_in_use_def)
  have k: "factory_in_use ?P ?u = Some counting_factory" by (simp add: factory_in_use_def)
  have a: "(1::version) \<noteq> 2 \<and> contexts ?s 1 = None \<and> contexts ?s 2 = None
            \<and> constructs ?P counting_factory 1 (?s\<lparr>contextFactory := Some counting_factory\<rparr>) 0 ?t1
            \<and> healthy_at ?P 0 ?t1 ?s1
            \<and> constructs ?P counting_factory 2 ?s1 1 ?t2 \<and> healthy_at ?P 1 ?t2 ?s2"
    by (simp add: constructs_def healthy_at_def bootstrapWebGLContext_def
          callAndCheck_def checkWebGLError_def bootstrap_calls_def ext_defs mock_defs)
  have b: "contexts ?u 1 = Some 0
            \<and> gl_isContextLost ?P 0 (world ?u) = (False, 2)
            \<and> gl_getError ?P 0 2 = (NO_ERROR (enums ?P), 2)"
    by (simp add: mock_defs)
  from cached_handle_per_version [OF h, THEN conjunct1, rule_format, OF a]
  have c: "getContextByVersion ?P 1 ?s = Some (Inr 0, ?s1)
        \<and> getContextByVersion ?P 2 ?s1 = Some (Inr 1, ?s2)
        \<and> contexts ?s2 = [1 \<mapsto> 0, 2 \<mapsto> 1] \<and> contexts ?s2 1 \<noteq> contexts ?s2 2"
    by (simp add: init_def)
  from cached_handle_per_version [OF k, THEN conjunct2, rule_format, OF b]
  have d: "getContextByVersion ?P 1 ?u
      = Some (Inr 0, ?u\<lparr>trace := [IsContextLost 0 False, GetError 0 0]\<rparr>)"
    by (simp add: mock_defs)
  from c d show ?thesis by (simp only: simp_thms) blast
qed

text \<open>
  The claim as stated (C3) fails in two ways. A cached handle that is neither disposed nor
  lost is not returned when its error state is not clear: the call throws. And distinct
  versions hold one and the same handle when the factory returns the same object twice.
\<close>

theorem cached_handle_per_version_counterexample:
  "getContextByVersion (mock False False (\<lambda>gl. False) (\<lambda>gl. 1282)) 1
      (init\<lparr>contexts := [1 \<mapsto> 0], contextFactory := Some counting_factory, world := 1\<rparr>)
     = Some (Inl (Error ''WebGL Error: INVALID_OPERATION''),
             init\<lparr>contexts := [1 \<mapsto> 0], contextFactory := Some counting_factory, world := 1,
                  trace := [IsContextLost 0 False, GetError 0 1282]\<rparr>)
   \<and> Option.bind
     (getContextByVersion (mock False False (\<lambda>gl. False) (\<lambda>gl. 0)) 1
        (init\<lparr>contextFactory := Some (constant_factory 7)\<rparr>))
     (\<lambda>(r1, s1). map_option (\<lambda>(r2, s2). (r1, r2, contexts s2 1, contexts s2 2))
        (getContextByVersion (mock False False (\<lambda>gl. False) (\<lambda>gl. 0)) 2 s1))
   = Some (Inr 7, Inr 7, Some 7, Some 7)"
  by (simp add: getContextByVersion.simps factory_in_use_def bootstrapWebGLContext_def
        callAndCheck_def checkWebGLError_def getWebGLErrorMessage_def disposeWebGLContext_def
        ext_defs mock_defs)

text \<open>
  C4, as the source has it. In the error-checked iteration \<^verbatim>\<open>setContextFactory(f)\<close> only
  replaces the factory: the registry is kept, the next call for a cached version whose
  handle is not lost and whose check answers \<^verbatim>\<open>NO_ERROR\<close> returns the cached handle
  without calling \<open>f\<close>, and an uncached version is built by \<open>f\<close> (and returned, when the
  handle passes its checks and is not lost when tested). In the first iteration
  \<^verbatim>\<open>setContextFactory(f)\<close> empties the registry, and the next call for any version calls
  \<open>f\<close> and returns the handle \<open>f\<close> returned, when that handle is not lost when tested.
\<close>

theorem setContextFactory_keeps_entries:
  "contexts (setContextFactory f s) = contexts s
   \<and> contextFactory (setContextFactory f s) = Some f
   \<and> (\<forall>v gl w1 w2.
        contexts s v = Some gl
        \<and> gl_isContextLost P gl (world s) = (False, w1)
        \<and> gl_getError P gl w1 = (NO_ERROR (enums P), w2)
      \<longrightarrow> getContextByVersion P v (setContextFactory f s)
            = Some (Inr gl, s\<lparr>contextFactory := Some f, world := w2,
                 trace := trace s @ [IsContextLost gl False, GetError gl (NO_ERROR (enums P))]\<rparr>))
   \<and> (\<forall>v gl s1 s'.
        contexts s v = None \<and> constructs P f v (setContextFactory f s) gl s1
        \<and> healthy_at P gl s1 s'
      \<longrightarrow> getContextByVersion P v (setContextFactory f s) = Some (Inr gl, s')
          \<and> contexts s' = (contexts s)(v \<mapsto> gl)
          \<and> trace s' = trace s @ [CallFactory v (Inr gl)]
                   @ bootstrap_calls (DEBUG P) gl (NO_ERROR (enums P))
                   @ [GetError gl (NO_ERROR (enums P)), IsContextLost gl False,
                      GetError gl (NO_ERROR (enums P))])
   \<and> contexts (setContextFactory_v1 f s) = Map.empty
   \<and> (\<forall>v gl s1 s'.
        call_factory f v (setContextFactory_v1 f s) = (Inr gl, s1)
        \<and> isContextLost P gl (bootstrapWebGLContext_v1 P gl (s1\<lparr>contexts := (contexts s1)(v \<mapsto> gl)\<rparr>))
            = (False, s')
      \<longrightarrow> getContextByVersion_v1 P v (setContextFactory_v1 f s) = Some (Inr gl, s')
          \<and> contexts s' = [v \<mapsto> gl]
          \<and> trace s' = trace s @ CallFactory v (Inr gl)
                   # bootstrap_calls False gl (NO_ERROR (enums P)) @ [IsContextLost gl False])"
proof (intro conjI allI impI)
  let ?s = "setContextFactory f s"
  have fu: "factory_in_use P ?s = Some f"
    by (simp add: factory_in_use_def setContextFactory_def)
  have id: "?s\<lparr>contextFactory := Some f\<rparr> = ?s" by (simp add: setContextFactory_def)
  show "contexts ?s = contexts s" by (simp add: setContextFactory_def)
  show "contextFactory ?s = Some f" by (simp add: setContextFactory_def)
  show "getContextByVersion P v ?s
            = Some (Inr gl, s\<lparr>contextFactory := Some f, world := w2,
                 trace := trace s @ [IsContextLost gl False, GetError gl (NO_ERROR (enums P))]\<rparr>)"
    if "contexts s v = Some gl
        \<and> gl_isContextLost P gl (world s) = (False, w1)
        \<and> gl_getError P gl w1 = (NO_ERROR (enums P), w2)" for v gl w1 w2
    using that get_cached_healthy [OF fu, of v gl w1 w2]
    by (simp add: setContextFactory_def)
  {
    fix v gl s1 s'
    assume a: "contexts s v = None \<and> constructs P f v ?s gl s1 \<and> healthy_at P gl s1 s'"
    then have un: "contexts ?s v = None" and k: "constructs P f v ?s gl s1"
      and l: "healthy_at P gl s1 s'" by (simp_all add: setContextFactory_def)
    from k have k0: "constructs P f v (?s\<lparr>contextFactory := Some f\<rparr>) gl s1" unfolding id .
    show "getContextByVersion P v ?s = Some (Inr gl, s')"
      by (rule get_new_ok [OF fu un k0 l])
    from constructs_frame [OF k] healthy_at_frame [OF l]
    show "contexts s' = (contexts s)(v \<mapsto> gl)"
      and "trace s' = trace s @ [CallFactory v (Inr gl)]
                   @ bootstrap_calls (DEBUG P) gl (NO_ERROR (enums P))
                   @ [GetError gl (NO_ERROR (enums P)), IsContextLost gl False,
                      GetError gl (NO_ERROR (enums P))]"
      by (simp_all add: setContextFactory_def)
  }
  let ?t = "setContextFactory_v1 f s"
  show "contexts ?t = Map.empty" by (simp add: setContextFactory_v1_def)
  {
    fix v gl s1 s'
    assume a: "call_factory f v ?t = (Inr gl, s1)
        \<and> isContextLost P gl (bootstrapWebGLContext_v1 P gl (s1\<lparr>contexts := (contexts s1)(v \<mapsto> gl)\<rparr>))
            = (False, s')"
    then have cf: "call_factory f v ?t = (Inr gl, s1)"
      and il: "isContextLost P gl (bootstrapWebGLContext_v1 P gl (s1\<lparr>contexts := (contexts s1)(v \<mapsto> gl)\<rparr>))
            = (False, s')" by simp_all
    have fv: "factory_in_use P ?t = Some f"
      by (simp add: factory_in_use_def setContextFactory_v1_def)
    have uv: "contexts ?t v = None" by (simp add: setContextFactory_v1_def)
    have iv: "?t\<lparr>contextFactory := Some f\<rparr> = ?t" by (simp add: setContextFactory_v1_def)
    show "getContextByVersion_v1 P v ?t = Some (Inr gl, s')"
      by (subst getContextByVersion_v1.simps) (simp add: fv uv iv cf il)
    obtain r w where f: "f v (world s) = (r, w)" by (cases "f v (world s)")
    with a have r: "r = Inr gl"
      and s1: "s1 = ?t\<lparr>world := w, trace := trace s @ [CallFactory v (Inr gl)]\<rparr>"
      by (cases r; auto simp: call_factory_def setContextFactory_v1_def)+
    obtain l wl where l: "gl_isContextLost P gl (world (bootstrapWebGLContext_v1 P gl
        (s1\<lparr>contexts := (contexts s1)(v \<mapsto> gl)\<rparr>))) = (l, wl)"
      by (cases "gl_isContextLost P gl (world (bootstrapWebGLContext_v1 P gl
        (s1\<lparr>contexts := (contexts s1)(v \<mapsto> gl)\<rparr>)))")
    with a have s': "s' = (bootstrapWebGLContext_v1 P gl (s1\<lparr>contexts := (contexts s1)(v \<mapsto> gl)\<rparr>))
        \<lparr>world := wl, trace := trace (bootstrapWebGLContext_v1 P gl
           (s1\<lparr>contexts := (contexts s1)(v \<mapsto> gl)\<rparr>)) @ [IsContextLost gl False]\<rparr>"
      by (auto simp: isContextLost_def)
    show "contexts s' = [v \<mapsto> gl]"
      and "trace s' = trace s @ CallFactory v (Inr gl)
                   # bootstrap_calls False gl (NO_ERROR (enums P)) @ [IsContextLost gl False]"
      by (simp_all add: s' s1 bootstrapWebGLContext_v1_def setContextFactory_v1_def
            bootstrap_calls_def disable_def enable_def cullFace_def)
  }
qed

theorem setContextFactory_keeps_entries_witness:
  "getContextByVersion (mock False False (\<lambda>gl. False) (\<lambda>gl. 0)) 1
      (setContextFactory (constant_factory 7)
         (init\<lparr>contexts := [1 \<mapsto> 0], contextFactory := Some counting_factory, world := 1\<rparr>))
     = Some (Inr 0, init\<lparr>contexts := [1 \<mapsto> 0], contextFactory := Some (constant_factory 7),
                world := 1, trace := [IsContextLost 0 False, GetError 0 0]\<rparr>)
   \<and> getContextByVersion (mock False False (\<lambda>gl. False) (\<lambda>gl. 0)) 2
      (setContextFactory (constant_factory 7)
         (init\<lparr>contexts := [1 \<mapsto> 0], contextFactory := Some counting_factory, world := 1\<rparr>))
     = Some (Inr 7, init\<lparr>contexts := [1 \<mapsto> 0, 2 \<mapsto> 7], contextFactory := Some (constant_factory 7),
                world := 1, trace := [CallFactory 2 (Inr 7)] @ bootstrap_calls False 7 0
                   @ [GetError 7 0, IsContextLost 7 False, GetError 7 0]\<rparr>)
   \<and> getContextByVersion_v1 (mock False False (\<lambda>gl. False) (\<lambda>gl. 0)) 1
      (setContextFactory_v1 (constant_factory 7)
         (init\<lparr>contexts := [1 \<mapsto> 0], contextFactory := Some counting_factory, world := 1\<rparr>))
     = Some (Inr 7, init\<lparr>contexts := [1 \<mapsto> 7], contextFactory := Some (constant_factory 7),
                world := 1, trace := CallFactory 1 (Inr 7) # bootstrap_calls False 7 0
                   @ [IsContextLost 7 False]\<rparr>)"
proof -
  let ?P = "mock False False (\<lambda>gl. False) (\<lambda>gl. 0)"
  let ?s = "init\<lparr>contexts := [1 \<mapsto> 0], contextFactory := Some counting_factory, world := 1\<rparr>"
  let ?n = "?s\<lparr>contextFactory := Some (constant_factory 7)\<rparr>"
  let ?n1 = "?n\<lparr>contexts := [1 \<mapsto> 0, 2 \<mapsto> 7],
       trace := CallFactory 2 (Inr 7) # bootstrap_calls False 7 0 @ [GetError 7 0]\<rparr>"
  let ?n2 = "?n1\<lparr>trace := trace ?n1 @ [IsContextLost 7 False, GetError 7 0]\<rparr>"
  let ?v1 = "?n\<lparr>contexts := Map.empty, trace := [CallFactory 1 (Inr 7)]\<rparr>"
  let ?v2 = "?n\<lparr>contexts := [1 \<mapsto> 7],
       trace := CallFactory 1 (Inr 7) # bootstrap_calls False 7 0 @ [IsContextLost 7 False]\<rparr>"
  note t = setContextFactory_keeps_entries [of "constant_factory 7" ?s ?P]
  have a: "contexts ?s 1 = Some 0
        \<and> gl_isContextLost ?P 0 (world ?s) = (False, 1)
        \<and> gl_getError ?P 0 1 = (NO_ERROR (enums ?P), 1)"
    by (simp add: mock_defs)
  have b: "contexts ?s 2 = None
        \<and> constructs ?P (constant_factory 7) 2 (setContextFactory (constant_factory 7) ?s) 7 ?n1
        \<and> healthy_at ?P 7 ?n1 ?n2"
    by (simp add: setContextFactory_def constructs_def healthy_at_def bootstrapWebGLContext_def
          callAndCheck_def checkWebGLError_def bootstrap_calls_def ext_defs mock_defs)
  have c: "call_factory (constant_factory 7) 1 (setContextFactory_v1 (constant_factory 7) ?s)
            = (Inr 7, ?v1)
        \<and> isContextLost ?P 7 (bootstrapWebGLContext_v1 ?P 7 (?v1\<lparr>contexts := (contexts ?v1)(1 \<mapsto> 7)\<rparr>))
            = (False, ?v2)"
    by (simp add: setContextFactory_v1_def bootstrapWebGLContext_v1_def bootstrap_calls_def
          ext_defs mock_defs)
  from t [THEN conjunct2, THEN conjunct2, THEN conjunct1, rule_format, OF a]
  have 1: "getContextByVersion ?P 1 (setContextFactory (constant_factory 7) ?s)
     = Some (Inr 0, init\<lparr>contexts := [1 \<mapsto> 0], contextFactory := Some (constant_factory 7),
                world := 1, trace := [IsContextLost 0 False, GetError 0 0]\<rparr>)"
    by (simp add: mock_defs)
  from t [THEN conjunct2, THEN conjunct2, THEN conjunct2, THEN conjunct1, rule_format, OF b]
  have 2: "getContextByVersion ?P 2 (setContextFactory (constant_factory 7) ?s) = Some (Inr 7, ?n2)"
    by blast
  from t [THEN conjunct2, THEN conjunct2, THEN conjunct2, THEN conjunct2, THEN conjunct2,
          rule_format, OF c]
  have 3: "getContextByVersion_v1 ?P 1 (setContextFactory_v1 (constant_factory 7) ?s) = Some (Inr 7, ?v2)"
    by blast
  have e2: "?n2 = init\<lparr>contexts := [1 \<mapsto> 0, 2 \<mapsto> 7], contextFactory := Some (constant_factory 7),
                world := 1, trace := [CallFactory 2 (Inr 7)] @ bootstrap_calls False 7 0
                   @ [GetError 7 0, IsContextLost 7 False, GetError 7 0]\<rparr>"
    by (simp add: init_def)
  have e3: "?v2 = init\<lparr>contexts := [1 \<mapsto> 7], contextFactory := Some (constant_factory 7),
                world := 1, trace := CallFactory 1 (Inr 7) # bootstrap_calls False 7 0
                   @ [IsContextLost 7 False]\<rparr>"
    by (simp add: init_def)
  from 1 2 3 show ?thesis unfolding e2 e3 by blast
qed

text \<open>
  The claim as stated (C4) fails in the error-checked iteration: version 1 is built by one
  factory, a second factory is installed, and the next call for version 1 returns the
  first factory's handle 0 without a factory call.
\<close>

theorem setContextFactory_keeps_entries_counterexample:
  "Option.bind
     (getContextByVersion (mock False False (\<lambda>gl. False) (\<lambda>gl. 0)) 1
        (setContextFactory counting_factory init))
     (\<lambda>(r1, s1). map_option
        (\<lambda>(r2, s2). (r1, contexts (setContextFactory (constant_factory 7) s1) 1, r2,
                      filter is_factory_call (drop (length (trace s1)) (trace s2))))
        (getContextByVersion (mock False False (\<lambda>gl. False) (\<lambda>gl. 0)) 1
           (setContextFactory (constant_factory 7) s1)))
   = Some (Inr 0, Some 0, Inr 0, [])"
  by (simp add: getContextByVersion.simps factory_in_use_def bootstrapWebGLContext_def
        callAndCheck_def checkWebGLError_def disposeWebGLContext_def setContextFactory_def
        ext_defs mock_defs)

text \<open>
  C5. With no factory installed and \<^verbatim>\<open>IS_BROWSER\<close> false, \<^verbatim>\<open>getContextByVersion\<close>
  throws the error "Default WebGLRenderingContext factory was not set!" and leaves the
  whole state, the registry included, as it was. The flag is consulted besides the
  factory slot: with \<^verbatim>\<open>IS_BROWSER\<close> true the same call installs the canvas factory and
  goes on.
\<close>

theorem getContextByVersion_no_factory:
  assumes "contextFactory s = None"
  shows "(\<not> IS_BROWSER P \<longrightarrow>
            getContextByVersion P v s
              = Some (Inl (Error ''Default WebGLRenderingContext factory was not set!''), s))
       \<and> (IS_BROWSER P \<longrightarrow>
            getContextByVersion P v s
              = getContextByVersion P v (s\<lparr>contextFactory := Some (createDOMCanvasWebGLRenderingContext P)\<rparr>))"
  using assms
  by (simp add: getContextByVersion.simps [of P v s]
        getContextByVersion.simps [of P v "s\<lparr>contextFactory := Some (createDOMCanvasWebGLRenderingContext P)\<rparr>"]
        factory_in_use_def)

theorem getContextByVersion_no_factory_witness:
  "contextFactory init = None \<and> \<not> IS_BROWSER (mock False False (\<lambda>gl. False) (\<lambda>gl. 0))
   \<and> getContextByVersion (mock False False (\<lambda>gl. False) (\<lambda>gl. 0)) 1 init
       = Some (Inl (Error ''Default WebGLRenderingContext factory was not set!''), init)
   \<and> IS_BROWSER (mock True False (\<lambda>gl. False) (\<lambda>gl. 0))
   \<and> getContextByVersion (mock True False (\<lambda>gl. False) (\<lambda>gl. 0)) 1 init
       = getContextByVersion (mock True False (\<lambda>gl. False) (\<lambda>gl. 0)) 1 (init\<lparr>contextFactory := Some counting_factory\<rparr>)"
proof -
  have h: "contextFactory init = None" by (simp add: init_def)
  from getContextByVersion_no_factory [OF h, of "mock False False (\<lambda>gl. False) (\<lambda>gl. 0)" 1]
       getContextByVersion_no_factory [OF h, of "mock True False (\<lambda>gl. False) (\<lambda>gl. 0)" 1]
  show ?thesis by (simp add: mock_def h)
qed

text \<open>
  C6, as the source has it. Disposal of a cached version calls the cleanup in use and
  deletes the entry once the cleanup has returned; with no cleanup in use it deletes the
  entry without a call. A cleanup that throws ends the disposal: the exception is passed
  on and the entry stays in the registry.
\<close>

theorem disposeWebGLContext_entry:
  assumes "contexts s v = Some gl"
  shows "(cleanup_in_use P s = None \<longrightarrow>
            disposeWebGLContext P v s = (Inr (), s\<lparr>contexts := (contexts s)(v := None)\<rparr>))
       \<and> (\<forall>c w. cleanup_in_use P s = Some c \<and> c gl (world s) = (Inr (), w) \<longrightarrow>
            disposeWebGLContext P v s
              = (Inr (), s\<lparr>contexts := (contexts s)(v := None), contextCleanup := Some c,
                           world := w, trace := trace s @ [CallCleanup gl (Inr ())]\<rparr>))
       \<and> (\<forall>c x w. cleanup_in_use P s = Some c \<and> c gl (world s) = (Inl x, w) \<longrightarrow>
            disposeWebGLContext P v s
              = (Inl (Thrown x), s\<lparr>contextCleanup := Some c,
                           world := w, trace := trace s @ [CallCleanup gl (Inl x)]\<rparr>))"
  using assms
  by (auto simp: disposeWebGLContext_def cleanup_in_use_def call_cleanup_def Let_def
           split: option.splits if_splits)

theorem disposeWebGLContext_entry_witness:
  "contexts (init\<lparr>contexts := [1 \<mapsto> 0]\<rparr>) 1 = Some 0
   \<and> cleanup_in_use (mock False False (\<lambda>gl. False) (\<lambda>gl. 0)) (init\<lparr>contexts := [1 \<mapsto> 0]\<rparr>) = None
   \<and> disposeWebGLContext (mock False False (\<lambda>gl. False) (\<lambda>gl. 0)) 1 (init\<lparr>contexts := [1 \<mapsto> 0]\<rparr>)
       = (Inr (), init)
   \<and> cleanup_in_use (mock True False (\<lambda>gl. False) (\<lambda>gl. 0)) (init\<lparr>contexts := [1 \<mapsto> 0]\<rparr>)
       = Some quiet_cleanup
   \<and> disposeWebGLContext (mock True False (\<lambda>gl. False) (\<lambda>gl. 0)) 1 (init\<lparr>contexts := [1 \<mapsto> 0]\<rparr>)
       = (Inr (), init\<lparr>contextCleanup := Some quiet_cleanup, trace := [CallCleanup 0 (Inr ())]\<rparr>)
   \<and> cleanup_in_use (mock True False (\<lambda>gl. False) (\<lambda>gl. 0))
         (init\<lparr>contexts := [1 \<mapsto> 0], contextCleanup := Some throwing_cleanup\<rparr>)
       = Some throwing_cleanup
   \<and> disposeWebGLContext (mock True False (\<lambda>gl. False) (\<lambda>gl. 0)) 1
         (init\<lparr>contexts := [1 \<mapsto> 0], contextCleanup := Some throwing_cleanup\<rparr>)
       = (Inl (Thrown 0), init\<lparr>contexts := [1 \<mapsto> 0], contextCleanup := Some throwing_cleanup,
                               trace := [CallCleanup 0 (Inl 0)]\<rparr>)"
proof -
  let ?s = "init\<lparr>contexts := [1 \<mapsto> 0]\<rparr>"
  let ?t = "init\<lparr>contexts := [1 \<mapsto> 0], contextCleanup := Some throwing_cleanup\<rparr>"
  have h: "contexts ?s 1 = Some 0" by simp
  have k: "contexts ?t 1 = Some 0" by simp
  from disposeWebGLContext_entry [OF h, of "mock False False (\<lambda>gl. False) (\<lambda>gl. 0)"]
       disposeWebGLContext_entry [OF h, of "mock True False (\<lambda>gl. False) (\<lambda>gl. 0)"]
       disposeWebGLContext_entry [OF k, of "mock True False (\<lambda>gl. False) (\<lambda>gl. 0)"]
  show ?thesis
    by (simp add: cleanup_in_use_def mock_defs)
qed

text \<open>
  The claim as stated (the entry is removed even if the cleanup throws) fails: after a
  throwing cleanup the entry of version 1 is still there.
\<close>

theorem disposeWebGLContext_cleanup_throws_counterexample:
  "disposeWebGLContext (mock False False (\<lambda>gl. False) (\<lambda>gl. 0)) 1
       (init\<lparr>contexts := [1 \<mapsto> 0], contextCleanup := Some throwing_cleanup\<rparr>)
     = (Inl (Thrown 0),
        init\<lparr>contexts := [1 \<mapsto> 0], contextCleanup := Some throwing_cleanup,
             trace := [CallCleanup 0 (Inl 0)]\<rparr>)
   \<and> contexts (snd (disposeWebGLContext (mock False False (\<lambda>gl. False) (\<lambda>gl. 0)) 1
       (init\<lparr>contexts := [1 \<mapsto> 0], contextCleanup := Some throwing_cleanup\<rparr>))) 1 = Some 0"
  by (simp add: disposeWebGLContext_def ext_defs mock_defs)

text \<open>
  C7, the run that departs from the claim. In debug mode the bootstrap of a handle issues
  the nine state calls in the stated order, and checks the error state once, after the
  first call only; the eight calls that follow are not checked.
\<close>

theorem bootstrapWebGLContext_debug_checks_once:
  "bootstrapWebGLContext (mock False True (\<lambda>gl. False) (\<lambda>gl. 0)) 0 init
     = (Inr (), init\<lparr>trace :=
          [Disable 0 DEPTH_TEST, GetError 0 0, Disable 0 STENCIL_TEST, Disable 0 BLEND,
           Disable 0 DITHER, Disable 0 POLYGON_OFFSET_FILL, Disable 0 SAMPLE_COVERAGE,
           Enable 0 SCISSOR_TEST, Enable 0 CULL_FACE, CullFace 0 BACK]\<rparr>)
   \<and> length (filter is_error_check (trace (snd
        (bootstrapWebGLContext (mock False True (\<lambda>gl. False) (\<lambda>gl. 0)) 0 init)))) = 1"
  by (simp add: bootstrapWebGLContext_def callAndCheck_def checkWebGLError_def ext_defs mock_defs)

text \<open>
  C8, as the source has it. With pairwise distinct constants, \<^verbatim>\<open>getWebGLErrorMessage\<close>
  returns the name of \<^verbatim>\<open>NO_ERROR\<close> and of each of the six error codes, and for any
  other integer code \<open>N\<close> of magnitude below \<open>2^53\<close> the string \<^verbatim>\<open>Unknown error code \<close>
  followed by the decimal numeral of \<open>N\<close>.
\<close>

theorem getWebGLErrorMessage_names:
  assumes "distinct [NO_ERROR (enums P), INVALID_ENUM (enums P), INVALID_VALUE (enums P),
             INVALID_OPERATION (enums P), INVALID_FRAMEBUFFER_OPERATION (enums P),
             OUT_OF_MEMORY (enums P), CONTEXT_LOST_WEBGL (enums P)]"
  shows "getWebGLErrorMessage P (NO_ERROR (enums P)) = ''NO_ERROR''
     \<and> getWebGLErrorMessage P (INVALID_ENUM (enums P)) = ''INVALID_ENUM''
     \<and> getWebGLErrorMessage P (INVALID_VALUE (enums P)) = ''INVALID_VALUE''
     \<and> getWebGLErrorMessage P (INVALID_OPERATION (enums P)) = ''INVALID_OPERATION''
     \<and> getWebGLErrorMessage P (INVALID_FRAMEBUFFER_OPERATION (enums P)) = ''INVALID_FRAMEBUFFER_OPERATION''
     \<and> getWebGLErrorMessage P (OUT_OF_MEMORY (enums P)) = ''OUT_OF_MEMORY''
     \<and> getWebGLErrorMessage P (CONTEXT_LOST_WEBGL (enums P)) = ''CONTEXT_LOST_WEBGL''
     \<and> (\<forall>status. status \<notin> set [NO_ERROR (enums P), INVALID_ENUM (enums P), INVALID_VALUE (enums P),
             INVALID_OPERATION (enums P), INVALID_FRAMEBUFFER_OPERATION (enums P),
             OUT_OF_MEMORY (enums P), CONTEXT_LOST_WEBGL (enums P)]
          \<longrightarrow> \<bar>status\<bar> < 2 ^ 53
          \<longrightarrow> (\<exists>ds. getWebGLErrorMessage P status = ''Unknown error code '' @ ds
                 \<and> decimal_of ds status))"
proof -
  have "\<exists>ds. ''Unknown error code '' @ string_of_int status = ''Unknown error code '' @ ds
                 \<and> decimal_of ds status" for status
    using string_of_int_decimal [of status] by blast
  with assms show ?thesis by (auto simp: getWebGLErrorMessage_def)
qed

theorem getWebGLErrorMessage_names_witness:
  "distinct [(0::int), 1280, 1281, 1282, 1286, 1285, 37442]
   \<and> (9999::int) \<notin> set [0, 1280, 1281, 1282, 1286, 1285, 37442] \<and> \<bar>9999::int\<bar> < 2 ^ 53
   \<and> getWebGLErrorMessage (mock False False (\<lambda>gl. False) (\<lambda>gl. 0)) 0 = ''NO_ERROR''
   \<and> getWebGLErrorMessage (mock False False (\<lambda>gl. False) (\<lambda>gl. 0)) 1280 = ''INVALID_ENUM''
   \<and> getWebGLErrorMessage (mock False False (\<lambda>gl. False) (\<lambda>gl. 0)) 1281 = ''INVALID_VALUE''
   \<and> getWebGLErrorMessage (mock False False (\<lambda>gl. False) (\<lambda>gl. 0)) 1282 = ''INVALID_OPERATION''
   \<and> getWebGLErrorMessage (mock False False (\<lambda>gl. False) (\<lambda>gl. 0)) 1286 = ''INVALID_FRAMEBUFFER_OPERATION''
   \<and> getWebGLErrorMessage (mock False False (\<lambda>gl. False) (\<lambda>gl. 0)) 1285 = ''OUT_OF_MEMORY''
   \<and> getWebGLErrorMessage (mock False False (\<lambda>gl. False) (\<lambda>gl. 0)) 37442 = ''CONTEXT_LOST_WEBGL''
   \<and> (\<exists>ds. getWebGLErrorMessage (mock False False (\<lambda>gl. False) (\<lambda>gl. 0)) 9999
              = ''Unknown error code '' @ ds \<and> decimal_of ds 9999)
   \<and> decimal_of ''9999'' 9999
   \<and> getWebGLErrorMessage (mock False False (\<lambda>gl. False) (\<lambda>gl. 0)) 9999 = ''Unknown error code 9999''
   \<and> getWebGLErrorMessage (mock False False (\<lambda>gl. False) (\<lambda>gl. 0)) (- 1) = ''Unknown error code -1''"
proof -
  let ?P = "mock False False (\<lambda>gl. False) (\<lambda>gl. 0)"
  have d: "distinct [NO_ERROR (enums ?P), INVALID_ENUM (enums ?P), INVALID_VALUE (enums ?P),
             INVALID_OPERATION (enums ?P), INVALID_FRAMEBUFFER_OPERATION (enums ?P),
             OUT_OF_MEMORY (enums ?P), CONTEXT_LOST_WEBGL (enums ?P)]"
    by (simp add: mock_defs)
  have u: "(9999::int) \<notin> set [NO_ERROR (enums ?P), INVALID_ENUM (enums ?P), INVALID_VALUE (enums ?P),
             INVALID_OPERATION (enums ?P), INVALID_FRAMEBUFFER_OPERATION (enums ?P),
             OUT_OF_MEMORY (enums ?P), CONTEXT_LOST_WEBGL (enums ?P)]"
    by (simp add: mock_defs)
  have r: "\<bar>9999::int\<bar> < 2 ^ 53" by simp
  have n: "decimal_of ''9999'' 9999"
    by (simp add: decimal_of_def numeral_of_def decimal_value_def digit_value_def)
  have s: "getWebGLErrorMessage ?P 9999 = ''Unknown error code 9999''"
    "getWebGLErrorMessage ?P (- 1) = ''Unknown error code -1''"
    by (simp_all add: getWebGLErrorMessage_def mock_defs string_of_int_def string_of_nat.simps digit_def)
  note t = getWebGLErrorMessage_names [OF d]
  from t [THEN conjunct2, THEN conjunct2, THEN conjunct2, THEN conjunct2, THEN conjunct2,
          THEN conjunct2, THEN conjunct2, rule_format, OF u r]
  have e: "\<exists>ds. getWebGLErrorMessage ?P 9999 = ''Unknown error code '' @ ds \<and> decimal_of ds 9999" .
  from t have k: "getWebGLErrorMessage ?P 0 = ''NO_ERROR''
   \<and> getWebGLErrorMessage ?P 1280 = ''INVALID_ENUM''
   \<and> getWebGLErrorMessage ?P 1281 = ''INVALID_VALUE''
   \<and> getWebGLErrorMessage ?P 1282 = ''INVALID_OPERATION''
   \<and> getWebGLErrorMessage ?P 1286 = ''INVALID_FRAMEBUFFER_OPERATION''
   \<and> getWebGLErrorMessage ?P 1285 = ''OUT_OF_MEMORY''
   \<and> getWebGLErrorMessage ?P 37442 = ''CONTEXT_LOST_WEBGL''"
    by (simp add: mock_defs)
  from k e n s r show ?thesis by simp
qed

text \<open>
  The claim as stated (C8: the string is \<^verbatim>\<open>unknown code 9999\<close>) fails at code 9999.
\<close>

theorem getWebGLErrorMessage_unknown_counterexample:
  "getWebGLErrorMessage (mock False False (\<lambda>gl. False) (\<lambda>gl. 0)) 9999 = ''Unknown error code 9999''
   \<and> getWebGLErrorMessage (mock False False (\<lambda>gl. False) (\<lambda>gl. 0)) 9999 \<noteq> ''unknown code 9999''"
  by (simp add: getWebGLErrorMessage_def mock_defs string_of_int_def string_of_nat.simps digit_def)

text \<open>
  C9. \<^verbatim>\<open>callAndCheck\<close> runs the operation and hands its result on unchanged. With the
  debug flag off it is the operation itself (same result, same state, so it throws
  exactly when the operation throws). With the flag on, the error check follows the
  operation immediately, and an operation that throws is not followed by a check.
\<close>

theorem callAndCheck_transparent:
  "callAndCheck P gl False func s = func s
   \<and> (\<forall>r s'. callAndCheck P gl debugMode func s = (Inr r, s') \<longrightarrow> (\<exists>s1. func s = (Inr r, s1)))
   \<and> (\<forall>e s1. func s = (Inl e, s1) \<longrightarrow> callAndCheck P gl debugMode func s = (Inl e, s1))
   \<and> (\<forall>r s1. func s = (Inr r, s1) \<longrightarrow>
         callAndCheck P gl True func s =
           (case checkWebGLError P gl s1 of (Inl e, s2) \<Rightarrow> (Inl e, s2) | (Inr u, s2) \<Rightarrow> (Inr r, s2))
         \<and> (\<exists>error. trace (snd (callAndCheck P gl True func s)) = trace s1 @ [GetError gl error]))"
  by (auto simp: callAndCheck_def checkWebGLError_def getError_def split: prod.splits sum.splits if_splits)

theorem callAndCheck_transparent_witness:
  "callAndCheck (mock False True (\<lambda>gl. False) (\<lambda>gl. 0)) 5 True
       (\<lambda>s. (Inr (), disable (mock False True (\<lambda>gl. False) (\<lambda>gl. 0)) 5 DEPTH_TEST s)) init
     = (Inr (), init\<lparr>trace := [Disable 5 DEPTH_TEST, GetError 5 0]\<rparr>)
   \<and> callAndCheck (mock False False (\<lambda>gl. False) (\<lambda>gl. 1281)) 5 False
       (\<lambda>s. (Inr (), disable (mock False False (\<lambda>gl. False) (\<lambda>gl. 1281)) 5 DEPTH_TEST s)) init
     = (Inr (), init\<lparr>trace := [Disable 5 DEPTH_TEST]\<rparr>)"
  using callAndCheck_transparent [of "mock False True (\<lambda>gl. False) (\<lambda>gl. 0)" 5
          "\<lambda>s. (Inr (), disable (mock False True (\<lambda>gl. False) (\<lambda>gl. 0)) 5 DEPTH_TEST s)" init True]
        callAndCheck_transparent [of "mock False False (\<lambda>gl. False) (\<lambda>gl. 1281)" 5
          "\<lambda>s. (Inr (), disable (mock False False (\<lambda>gl. False) (\<lambda>gl. 1281)) 5 DEPTH_TEST s)" init False]
  by (simp add: checkWebGLError_def ext_defs mock_defs)

text \<open>
  C10. The error-checked \<^verbatim>\<open>getContextByVersion\<close> checks the error state of the context
  whatever the debug flag is, for a context found in the registry and for one just
  constructed alike.
  \<^item> After the loss test, before any disposal and before the return: a code other than
    \<^verbatim>\<open>NO_ERROR\<close> makes the call throw the \<^verbatim>\<open>WebGL Error\<close>, with the registry untouched.
  \<^item> After construction and bootstrap: likewise.
  \<^item> A lost context whose check answers \<^verbatim>\<open>NO_ERROR\<close> is disposed only after that check.
  \<^item> A call that returns a context has ended on a check answering \<^verbatim>\<open>NO_ERROR\<close>.
\<close>

theorem getContextByVersion_checks_errors:
  assumes "factory_in_use P s = Some f"
  shows "(\<forall>gl lost w1 c w2.
            contexts s v = Some gl
            \<and> gl_isContextLost P gl (world s) = (lost, w1)
            \<and> gl_getError P gl w1 = (c, w2) \<and> c \<noteq> NO_ERROR (enums P)
          \<longrightarrow> getContextByVersion P v s
                = Some (Inl (Error (''WebGL Error: '' @ getWebGLErrorMessage P c)),
                        s\<lparr>contextFactory := Some f, world := w2,
                          trace := trace s @ [IsContextLost gl lost, GetError gl c]\<rparr>))
       \<and> (\<forall>gl s1 s2 c s3.
            contexts s v = None
            \<and> call_factory f v (s\<lparr>contextFactory := Some f\<rparr>) = (Inr gl, s1)
            \<and> bootstrapWebGLContext P gl (s1\<lparr>contexts := (contexts s1)(v \<mapsto> gl)\<rparr>) = (Inr (), s2)
            \<and> getError P gl s2 = (c, s3) \<and> c \<noteq> NO_ERROR (enums P)
          \<longrightarrow> getContextByVersion P v s
                = Some (Inl (Error (''WebGL Error: '' @ getWebGLErrorMessage P c)), s3))
       \<and> (\<forall>gl s' lost w1 c w2.
            contexts s v = None
            \<and> constructs P f v (s\<lparr>contextFactory := Some f\<rparr>) gl s'
            \<and> gl_isContextLost P gl (world s') = (lost, w1)
            \<and> gl_getError P gl w1 = (c, w2) \<and> c \<noteq> NO_ERROR (enums P)
          \<longrightarrow> getContextByVersion P v s
                = Some (Inl (Error (''WebGL Error: '' @ getWebGLErrorMessage P c)),
                        s'\<lparr>world := w2,
                          trace := trace s' @ [IsContextLost gl lost, GetError gl c]\<rparr>))
       \<and> (\<forall>gl w1 w2.
            contexts s v = Some gl
            \<and> gl_isContextLost P gl (world s) = (True, w1)
            \<and> gl_getError P gl w1 = (NO_ERROR (enums P), w2)
          \<longrightarrow> getContextByVersion P v s
                = (case disposeWebGLContext P v
                          (s\<lparr>contextFactory := Some f, world := w2,
                             trace := trace s @ [IsContextLost gl True,
                                                 GetError gl (NO_ERROR (enums P))]\<rparr>) of
                     (Inl e, s3) \<Rightarrow> Some (Inl e, s3)
                   | (Inr u, s3) \<Rightarrow> getContextByVersion P v s3))
       \<and> (\<forall>gl s' w1 w2.
            contexts s v = None
            \<and> constructs P f v (s\<lparr>contextFactory := Some f\<rparr>) gl s'
            \<and> gl_isContextLost P gl (world s') = (True, w1)
            \<and> gl_getError P gl w1 = (NO_ERROR (enums P), w2)
          \<longrightarrow> getContextByVersion P v s
                = (case disposeWebGLContext P v
                          (s'\<lparr>world := w2,
                              trace := trace s' @ [IsContextLost gl True,
                                                   GetError gl (NO_ERROR (enums P))]\<rparr>) of
                     (Inl e, s3) \<Rightarrow> Some (Inl e, s3)
                   | (Inr u, s3) \<Rightarrow> getContextByVersion P v s3))
       \<and> (\<forall>gl s'. getContextByVersion P v s = Some (Inr gl, s')
          \<longrightarrow> (\<exists>tr. trace s' = tr @ [GetError gl (NO_ERROR (enums P))]))"
proof -
  have cached_fail: "getContextByVersion P v t
                = Some (Inl (Error (''WebGL Error: '' @ getWebGLErrorMessage P c)),
                        t\<lparr>contextFactory := Some f, world := w2,
                          trace := trace t @ [IsContextLost gl lost, GetError gl c]\<rparr>)"
    if "factory_in_use P t = Some f" "contexts t v = Some gl"
      "gl_isContextLost P gl (world t) = (lost, w1)"
      "gl_getError P gl w1 = (c, w2)" "c \<noteq> NO_ERROR (enums P)" for t gl lost w1 c w2
    using that(3-5)
    by (simp add: get_cached [OF that(1,2)] isContextLost_def checkWebGLError_def getError_def)
  have cached_lost: "getContextByVersion P v t
                = (case disposeWebGLContext P v
                          (t\<lparr>contextFactory := Some f, world := w2,
                             trace := trace t @ [IsContextLost gl True,
                                                 GetError gl (NO_ERROR (enums P))]\<rparr>) of
                     (Inl e, s3) \<Rightarrow> Some (Inl e, s3)
                   | (Inr u, s3) \<Rightarrow> getContextByVersion P v s3)"
    if "factory_in_use P t = Some f" "contexts t v = Some gl"
      "gl_isContextLost P gl (world t) = (True, w1)"
      "gl_getError P gl w1 = (NO_ERROR (enums P), w2)" for t gl w1 w2
    using that(3,4)
    by (simp add: get_cached [OF that(1,2)] isContextLost_def checkWebGLError_def getError_def)
  show ?thesis
  proof (intro conjI allI impI)
    fix gl lost w1 c w2
    assume "contexts s v = Some gl
            \<and> gl_isContextLost P gl (world s) = (lost, w1)
            \<and> gl_getError P gl w1 = (c, w2) \<and> c \<noteq> NO_ERROR (enums P)"
    then show "getContextByVersion P v s
                = Some (Inl (Error (''WebGL Error: '' @ getWebGLErrorMessage P c)),
                        s\<lparr>contextFactory := Some f, world := w2,
                          trace := trace s @ [IsContextLost gl lost, GetError gl c]\<rparr>)"
      using cached_fail [OF assms] by blast
  next
    fix gl s1 s2 c s3
    assume a: "contexts s v = None
            \<and> call_factory f v (s\<lparr>contextFactory := Some f\<rparr>) = (Inr gl, s1)
            \<and> bootstrapWebGLContext P gl (s1\<lparr>contexts := (contexts s1)(v \<mapsto> gl)\<rparr>) = (Inr (), s2)
            \<and> getError P gl s2 = (c, s3) \<and> c \<noteq> NO_ERROR (enums P)"
    then have "checkWebGLError P gl s2
        = (Inl (Error (''WebGL Error: '' @ getWebGLErrorMessage P c)), s3)"
      by (simp add: checkWebGLError_fail)
    with a show "getContextByVersion P v s
                = Some (Inl (Error (''WebGL Error: '' @ getWebGLErrorMessage P c)), s3)"
      by (simp add: get_uncached [OF assms])
  next
    fix gl s' lost w1 c w2
    assume a: "contexts s v = None
            \<and> constructs P f v (s\<lparr>contextFactory := Some f\<rparr>) gl s'
            \<and> gl_isContextLost P gl (world s') = (lost, w1)
            \<and> gl_getError P gl w1 = (c, w2) \<and> c \<noteq> NO_ERROR (enums P)"
    then have un: "contexts s v = None"
      and k: "constructs P f v (s\<lparr>contextFactory := Some f\<rparr>) gl s'"
      and l: "gl_isContextLost P gl (world s') = (lost, w1)"
      and e: "gl_getError P gl w1 = (c, w2)" and ne: "c \<noteq> NO_ERROR (enums P)" by blast+
    from get_new_step [OF assms un k]
    have g: "getContextByVersion P v s = getContextByVersion P v s'"
      and fu: "factory_in_use P s' = Some f" and cx: "contexts s' v = Some gl"
      and id: "s'\<lparr>contextFactory := Some f\<rparr> = s'" by simp_all
    from cached_fail [OF fu cx l e ne, unfolded id]
    show "getContextByVersion P v s
                = Some (Inl (Error (''WebGL Error: '' @ getWebGLErrorMessage P c)),
                        s'\<lparr>world := w2,
                          trace := trace s' @ [IsContextLost gl lost, GetError gl c]\<rparr>)"
      by (simp only: g)
  next
    fix gl w1 w2
    assume "contexts s v = Some gl
            \<and> gl_isContextLost P gl (world s) = (True, w1)
            \<and> gl_getError P gl w1 = (NO_ERROR (enums P), w2)"
    then show "getContextByVersion P v s
                = (case disposeWebGLContext P v
                          (s\<lparr>contextFactory := Some f, world := w2,
                             trace := trace s @ [IsContextLost gl True,
                                                 GetError gl (NO_ERROR (enums P))]\<rparr>) of
                     (Inl e, s3) \<Rightarrow> Some (Inl e, s3)
                   | (Inr u, s3) \<Rightarrow> getContextByVersion P v s3)"
      using cached_lost [OF assms] by blast
  next
    fix gl s' w1 w2
    assume a: "contexts s v = None
            \<and> constructs P f v (s\<lparr>contextFactory := Some f\<rparr>) gl s'
            \<and> gl_isContextLost P gl (world s') = (True, w1)
            \<and> gl_getError P gl w1 = (NO_ERROR (enums P), w2)"
    then have un: "contexts s v = None"
      and k: "constructs P f v (s\<lparr>contextFactory := Some f\<rparr>) gl s'"
      and l: "gl_isContextLost P gl (world s') = (True, w1)"
      and e: "gl_getError P gl w1 = (NO_ERROR (enums P), w2)" by blast+
    from get_new_step [OF assms un k]
    have g: "getContextByVersion P v s = getContextByVersion P v s'"
      and fu: "factory_in_use P s' = Some f" and cx: "contexts s' v = Some gl"
      and id: "s'\<lparr>contextFactory := Some f\<rparr> = s'" by simp_all
    from cached_lost [OF fu cx l e, unfolded id]
    show "getContextByVersion P v s
                = (case disposeWebGLContext P v
                          (s'\<lparr>world := w2,
                              trace := trace s' @ [IsContextLost gl True,
                                                   GetError gl (NO_ERROR (enums P))]\<rparr>) of
                     (Inl e, s3) \<Rightarrow> Some (Inl e, s3)
                   | (Inr u, s3) \<Rightarrow> getContextByVersion P v s3)"
      by (simp only: g)
  next
    fix gl s' assume "getContextByVersion P v s = Some (Inr gl, s')"
    then show "\<exists>tr. trace s' = tr @ [GetError gl (NO_ERROR (enums P))]"
      by (rule get_returns_checked)
  qed
qed

theorem getContextByVersion_checks_errors_witness:
  "\<not> DEBUG (mock False False (\<lambda>gl. False) (\<lambda>gl. 1282))
   \<and> getContextByVersion (mock False False (\<lambda>gl. False) (\<lambda>gl. 1282)) 1
       (init\<lparr>contexts := [1 \<mapsto> 0], contextFactory := Some counting_factory, world := 1\<rparr>)
     = Some (Inl (Error ''WebGL Error: INVALID_OPERATION''),
             init\<lparr>contexts := [1 \<mapsto> 0], contextFactory := Some counting_factory, world := 1,
                  trace := [IsContextLost 0 False, GetError 0 1282]\<rparr>)
   \<and> getContextByVersion (mock False False (\<lambda>gl. False) (\<lambda>gl. 1282)) 2
       (init\<lparr>contexts := [1 \<mapsto> 0], contextFactory := Some counting_factory, world := 1\<rparr>)
     = Some (Inl (Error ''WebGL Error: INVALID_OPERATION''),
             init\<lparr>contexts := [1 \<mapsto> 0, 2 \<mapsto> 1], contextFactory := Some counting_factory, world := 2,
                  trace := CallFactory 2 (Inr 1) # bootstrap_calls False 1 0 @ [GetError 1 1282]\<rparr>)
   \<and> getContextByVersion (clocked False (\<lambda>t. t = 1) (\<lambda>t. if t = 2 then 37442 else 0)) 1
       (init\<lparr>contextFactory := Some (constant_factory 5)\<rparr>)
     = Some (Inl (Error ''WebGL Error: CONTEXT_LOST_WEBGL''),
             init\<lparr>contexts := [1 \<mapsto> 5], contextFactory := Some (constant_factory 5), world := 3,
                  trace := CallFactory 1 (Inr 5) # bootstrap_calls False 5 0
                    @ [GetError 5 0, IsContextLost 5 True, GetError 5 37442]\<rparr>)
   \<and> getContextByVersion (mock False False (\<lambda>gl. gl = 0) (\<lambda>gl. 0)) 1
       (init\<lparr>contexts := [1 \<mapsto> 0], contextFactory := Some counting_factory, world := 1\<rparr>)
     = getContextByVersion (mock False False (\<lambda>gl. gl = 0) (\<lambda>gl. 0)) 1
       (init\<lparr>contextFactory := Some counting_factory, world := 1,
             trace := [IsContextLost 0 True, GetError 0 0]\<rparr>)
   \<and> getContextByVersion (mock False False (\<lambda>gl. gl = 0) (\<lambda>gl. 0)) 1
       (init\<lparr>contextFactory := Some counting_factory\<rparr>)
     = getContextByVersion (mock False False (\<lambda>gl. gl = 0) (\<lambda>gl. 0)) 1
       (init\<lparr>contextFactory := Some counting_factory, world := 1,
             trace := CallFactory 1 (Inr 0) # bootstrap_calls False 0 0
                    @ [GetError 0 0, IsContextLost 0 True, GetError 0 0]\<rparr>)
   \<and> getContextByVersion (mock False False (\<lambda>gl. False) (\<lambda>gl. 0)) 1
       (init\<lparr>contexts := [1 \<mapsto> 0], contextFactory := Some counting_factory, world := 1\<rparr>)
     = Some (Inr 0,
             init\<lparr>contexts := [1 \<mapsto> 0], contextFactory := Some counting_factory, world := 1,
                  trace := [IsContextLost 0 False, GetError 0 0]\<rparr>)
   \<and> (\<exists>tr. [IsContextLost 0 False, GetError 0 0] = tr @ [GetError 0 0])"
proof -
  let ?E = "mock False False (\<lambda>gl. False) (\<lambda>gl. 1282)"
  let ?C = "clocked False (\<lambda>t. t = 1) (\<lambda>t. if t = 2 then 37442 else 0)"
  let ?L = "mock False False (\<lambda>gl. gl = 0) (\<lambda>gl. 0)"
  let ?G = "mock False False (\<lambda>gl. False) (\<lambda>gl. 0)"
  let ?s = "init\<lparr>contexts := [1 \<mapsto> 0], contextFactory := Some counting_factory, world := 1\<rparr>"
  let ?n = "init\<lparr>contextFactory := Some counting_factory\<rparr>"
  let ?c = "init\<lparr>contextFactory := Some (constant_factory 5)\<rparr>"
  have d: "\<not> DEBUG ?E" by (simp add: mock_def)
  have hE: "factory_in_use ?E ?s = Some counting_factory" by (simp add: factory_in_use_def)
  have hL: "factory_in_use ?L ?s = Some counting_factory" by (simp add: factory_in_use_def)
  have hG: "factory_in_use ?G ?s = Some counting_factory" by (simp add: factory_in_use_def)
  have hLn: "factory_in_use ?L ?n = Some counting_factory" by (simp add: factory_in_use_def)
  have hC: "factory_in_use ?C ?c = Some (constant_factory 5)" by (simp add: factory_in_use_def)
  \<comment> \<open>a cached context, error pending\<close>
  have 1: "contexts ?s 1 = Some 0 \<and> gl_isContextLost ?E 0 (world ?s) = (False, 1)
            \<and> gl_getError ?E 0 1 = (1282, 1) \<and> (1282::int) \<noteq> NO_ERROR (enums ?E)"
    by (simp add: mock_defs)
  from getContextByVersion_checks_errors [OF hE, of 1, THEN conjunct1, rule_format, OF 1]
  have a: "getContextByVersion ?E 1 ?s
     = Some (Inl (Error ''WebGL Error: INVALID_OPERATION''),
             init\<lparr>contexts := [1 \<mapsto> 0], contextFactory := Some counting_factory, world := 1,
                  trace := [IsContextLost 0 False, GetError 0 1282]\<rparr>)"
    by (simp add: getWebGLErrorMessage_def mock_defs)
  \<comment> \<open>a new context, error pending after the bootstrap\<close>
  let ?e1 = "?s\<lparr>world := 2, trace := [CallFactory 2 (Inr 1)]\<rparr>"
  let ?e2 = "?s\<lparr>contexts := [1 \<mapsto> 0, 2 \<mapsto> 1], world := 2,
              trace := CallFactory 2 (Inr 1) # bootstrap_calls False 1 0\<rparr>"
  let ?e3 = "?s\<lparr>contexts := [1 \<mapsto> 0, 2 \<mapsto> 1], world := 2,
              trace := CallFactory 2 (Inr 1) # bootstrap_calls False 1 0 @ [GetError 1 1282]\<rparr>"
  have 2: "contexts ?s 2 = None
            \<and> call_factory counting_factory 2 (?s\<lparr>contextFactory := Some counting_factory\<rparr>) = (Inr 1, ?e1)
            \<and> bootstrapWebGLContext ?E 1 (?e1\<lparr>contexts := (contexts ?e1)(2 \<mapsto> 1)\<rparr>) = (Inr (), ?e2)
            \<and> getError ?E 1 ?e2 = (1282, ?e3) \<and> (1282::int) \<noteq> NO_ERROR (enums ?E)"
    by (simp add: bootstrapWebGLContext_def callAndCheck_def bootstrap_calls_def ext_defs mock_defs)
  from getContextByVersion_checks_errors [OF hE, of 2, THEN conjunct2, THEN conjunct1, rule_format, OF 2]
  have b: "getContextByVersion ?E 2 ?s
     = Some (Inl (Error ''WebGL Error: INVALID_OPERATION''),
             init\<lparr>contexts := [1 \<mapsto> 0, 2 \<mapsto> 1], contextFactory := Some counting_factory, world := 2,
                  trace := CallFactory 2 (Inr 1) # bootstrap_calls False 1 0 @ [GetError 1 1282]\<rparr>)"
    by (simp add: getWebGLErrorMessage_def mock_defs)
  \<comment> \<open>a context just constructed, lost, error pending at the check before disposal\<close>
  let ?c1 = "?c\<lparr>contexts := [1 \<mapsto> 5], world := 1,
              trace := CallFactory 1 (Inr 5) # bootstrap_calls False 5 0 @ [GetError 5 0]\<rparr>"
  have 3: "contexts ?c 1 = None
            \<and> constructs ?C (constant_factory 5) 1 (?c\<lparr>contextFactory := Some (constant_factory 5)\<rparr>) 5 ?c1
            \<and> gl_isContextLost ?C 5 (world ?c1) = (True, 2)
            \<and> gl_getError ?C 5 2 = (37442, 3) \<and> (37442::int) \<noteq> NO_ERROR (enums ?C)"
    by (simp add: constructs_def bootstrapWebGLContext_def callAndCheck_def checkWebGLError_def
          bootstrap_calls_def ext_defs clock_defs)
  from getContextByVersion_checks_errors [OF hC, of 1, THEN conjunct2, THEN conjunct2, THEN conjunct1,
      rule_format, OF 3]
  have c: "getContextByVersion ?C 1 ?c
     = Some (Inl (Error ''WebGL Error: CONTEXT_LOST_WEBGL''),
             init\<lparr>contexts := [1 \<mapsto> 5], contextFactory := Some (constant_factory 5), world := 3,
                  trace := CallFactory 1 (Inr 5) # bootstrap_calls False 5 0
                    @ [GetError 5 0, IsContextLost 5 True, GetError 5 37442]\<rparr>)"
    by (simp add: getWebGLErrorMessage_def clock_defs)
  \<comment> \<open>a cached lost context whose check passes: the check precedes the disposal\<close>
  have 4: "contexts ?s 1 = Some 0 \<and> gl_isContextLost ?L 0 (world ?s) = (True, 1)
            \<and> gl_getError ?L 0 1 = (NO_ERROR (enums ?L), 1)"
    by (simp add: mock_defs)
  from getContextByVersion_checks_errors [OF hL, of 1, THEN conjunct2, THEN conjunct2, THEN conjunct2,
      THEN conjunct1, rule_format, OF 4]
  have e: "getContextByVersion ?L 1 ?s
     = getContextByVersion ?L 1
       (init\<lparr>contextFactory := Some counting_factory, world := 1,
             trace := [IsContextLost 0 True, GetError 0 0]\<rparr>)"
    by (simp add: disposeWebGLContext_def mock_defs)
  \<comment> \<open>the same for a context just constructed\<close>
  let ?n1 = "?n\<lparr>contexts := [1 \<mapsto> 0], world := 1,
              trace := CallFactory 1 (Inr 0) # bootstrap_calls False 0 0 @ [GetError 0 0]\<rparr>"
  have 5: "contexts ?n 1 = None
            \<and> constructs ?L counting_factory 1 (?n\<lparr>contextFactory := Some counting_factory\<rparr>) 0 ?n1
            \<and> gl_isContextLost ?L 0 (world ?n1) = (True, 1)
            \<and> gl_getError ?L 0 1 = (NO_ERROR (enums ?L), 1)"
    by (simp add: constructs_def bootstrapWebGLContext_def callAndCheck_def checkWebGLError_def
          bootstrap_calls_def ext_defs mock_defs)
  from getContextByVersion_checks_errors [OF hLn, of 1, THEN conjunct2, THEN conjunct2, THEN conjunct2,
      THEN conjunct2, THEN conjunct1, rule_format, OF 5]
  have f: "getContextByVersion ?L 1 ?n
     = getContextByVersion ?L 1
       (init\<lparr>contextFactory := Some counting_factory, world := 1,
             trace := CallFactory 1 (Inr 0) # bootstrap_calls False 0 0
                    @ [GetError 0 0, IsContextLost 0 True, GetError 0 0]\<rparr>)"
    by (simp add: disposeWebGLContext_def mock_defs)
  \<comment> \<open>a call that returns has ended on a clean check\<close>
  have g: "getContextByVersion ?G 1 ?s
     = Some (Inr 0,
             init\<lparr>contexts := [1 \<mapsto> 0], contextFactory := Some counting_factory, world := 1,
                  trace := [IsContextLost 0 False, GetError 0 0]\<rparr>)"
    using get_cached_healthy [OF hG, of 1 0 1 1] by (simp add: mock_defs)
  from getContextByVersion_checks_errors [OF hG, of 1, THEN conjunct2, THEN conjunct2, THEN conjunct2,
      THEN conjunct2, THEN conjunct2, rule_format, OF g]
  have h: "\<exists>tr. [IsContextLost 0 False, GetError 0 0] = tr @ [GetError 0 0]"
    by (simp add: mock_defs)
  from d a b c e f g h show ?thesis by blast
qed

end
